theory Spec2Isabelle
  imports Complex_Main "HOL-Library.Sublist" "HOL-Library.AList"
begin

section \<open>Python values\<close>

text \<open>
  The scripts handle the values that \<^verbatim>\<open>response.json()\<close> produces and the strings read
  from the environment. \<open>JNull\<close> is Python's \<^verbatim>\<open>None\<close>, \<open>JObj\<close> a \<^verbatim>\<open>dict\<close> with string keys
  (an association list in insertion order, read with \<open>map_of\<close>), \<open>JArr\<close> a \<^verbatim>\<open>list\<close>.
  Floats are only ever copied from a response into a result, so a rational stands for them.
  Strings are ASCII text.
\<close>

datatype json =
    JNull
  | JBool bool
  | JInt int
  | JFloat rat
  | JStr string
  | JArr "json list"
  | JObj "(string \<times> json) list"

type_synonym dict = "(string \<times> json) list"

text \<open>
  Exceptions are values. \<open>HTTPError\<close>, \<open>ConnectionError\<close> and \<open>JSONDecodeError\<close> are the
  subclasses of \<^verbatim>\<open>requests.exceptions.RequestException\<close> that the library raises; the others
  are Python built-ins, which an \<^verbatim>\<open>except requests.exceptions.RequestException\<close> clause lets
  through. \<open>JSONDecodeError\<close> is what \<^verbatim>\<open>response.json()\<close> raises on a body that is not JSON.
\<close>

datatype exn =
    ValueError string
  | NameError string
  | KeyError string
  | TypeError
  | AttributeError
  | HTTPError nat
  | ConnectionError
  | JSONDecodeError
  | FileNotFoundError
  | EOFError

fun is_RequestException :: "exn \<Rightarrow> bool" where
  "is_RequestException (HTTPError s) = True"
| "is_RequestException ConnectionError = True"
| "is_RequestException JSONDecodeError = True"
| "is_RequestException e = False"

text \<open>Truth value of an object, as \<^verbatim>\<open>if x\<close> and \<^verbatim>\<open>not x\<close> test it.\<close>

fun truthy :: "json \<Rightarrow> bool" where
  "truthy JNull = False"
| "truthy (JBool b) = b"
| "truthy (JInt i) = (i \<noteq> 0)"
| "truthy (JFloat r) = (r \<noteq> 0)"
| "truthy (JStr s) = (s \<noteq> [])"
| "truthy (JArr xs) = (xs \<noteq> [])"
| "truthy (JObj d) = (d \<noteq> [])"

definition keys :: "dict \<Rightarrow> string set" where
  "keys d = set (map fst d)"

text \<open>\<^verbatim>\<open>k in v\<close> for a string \<open>k\<close>: key membership in a dict, element membership in a list,
  substring test in a string, and a \<^verbatim>\<open>TypeError\<close> on anything that is not a container.\<close>

fun py_in :: "string \<Rightarrow> json \<Rightarrow> exn + bool" where
  "py_in k (JObj d) = Inr (k \<in> keys d)"
| "py_in k (JArr xs) = Inr (JStr k \<in> set xs)"
| "py_in k (JStr s) = Inr (sublist k s)"
| "py_in k v = Inl TypeError"

text \<open>\<^verbatim>\<open>v[k]\<close> for a string \<open>k\<close>: only a dict can be subscripted by a string.\<close>

fun py_getitem :: "json \<Rightarrow> string \<Rightarrow> exn + json" where
  "py_getitem (JObj d) k = (case map_of d k of Some x \<Rightarrow> Inr x | None \<Rightarrow> Inl (KeyError k))"
| "py_getitem v k = Inl TypeError"

text \<open>\<^verbatim>\<open>d.get(k, default)\<close> on a dict; on any other value the attribute \<^verbatim>\<open>get\<close> is missing.\<close>

definition dict_get :: "dict \<Rightarrow> string \<Rightarrow> json \<Rightarrow> json" where
  "dict_get d k dflt = (case map_of d k of Some x \<Rightarrow> x | None \<Rightarrow> dflt)"

fun py_get :: "json \<Rightarrow> string \<Rightarrow> json \<Rightarrow> exn + json" where
  "py_get (JObj d) k dflt = Inr (dict_get d k dflt)"
| "py_get v k dflt = Inl AttributeError"

section \<open>Quote formatting\<close>

text \<open>
  \<^verbatim>\<open>SchwabAPIClient.format_quote_for_trading\<close> (schwab_client.py). The guard returns the
  empty dict; past it, \<^verbatim>\<open>quote_data["quote"]\<close> is read and every field comes from
  \<^verbatim>\<open>quote.get\<close>, which exists only when \<^verbatim>\<open>quote\<close> is a dict.
\<close>

definition format_quote_for_trading :: "json \<Rightarrow> exn + dict" where
  "format_quote_for_trading quote_data =
    (if \<not> truthy quote_data then Inr []
     else
      (case py_in ''quote'' quote_data of
         Inl e \<Rightarrow> Inl e
       | Inr False \<Rightarrow> Inr []
       | Inr True \<Rightarrow>
          (case py_getitem quote_data ''quote'' of
             Inl e \<Rightarrow> Inl e
           | Inr quote \<Rightarrow>
              (case quote of
                 JObj q \<Rightarrow> Inr
                  [(''buy_price'', dict_get q ''askPrice'' (dict_get q ''lastPrice'' (JInt 0))),
                   (''sell_price'', dict_get q ''bidPrice'' (dict_get q ''lastPrice'' (JInt 0))),
                   (''last_price'', dict_get q ''lastPrice'' (JInt 0)),
                   (''high'', dict_get q ''highPrice'' (JInt 0)),
                   (''low'', dict_get q ''lowPrice'' (JInt 0)),
                   (''volume'', dict_get q ''totalVolume'' (JInt 0)),
                   (''timestamp'', dict_get q ''quoteTime'' (JInt 0))]
               | _ \<Rightarrow> Inl AttributeError))))"

section \<open>Market hours\<close>

text \<open>
  \<^verbatim>\<open>get_market_status\<close> (tool_get_price_schwab.py) reads the clock once. The record holds
  what the function asks of \<^verbatim>\<open>datetime.now()\<close>: \<^verbatim>\<open>weekday()\<close>, \<^verbatim>\<open>hour\<close>, \<^verbatim>\<open>minute\<close>,
  \<^verbatim>\<open>isoformat()\<close> and \<^verbatim>\<open>strftime("%A")\<close>.
\<close>

record local_time =
  weekday :: nat
  hour :: nat
  minute :: nat
  isoformat :: string
  day_name :: string

definition is_market_hours :: "local_time \<Rightarrow> bool" where
  "is_market_hours now =
    (let is_weekday = weekday now < 5;
         current_hour = hour now;
         current_minute = minute now
     in is_weekday \<and>
        ((current_hour = 9 \<and> current_minute \<ge> 30) \<or>
         (current_hour > 9 \<and> current_hour < 16) \<or>
         (current_hour = 16 \<and> current_minute = 0)))"

definition get_market_status :: "local_time \<Rightarrow> dict" where
  "get_market_status now =
    [(''is_open'', JBool (is_market_hours now)),
     (''current_time'', JStr (isoformat now)),
     (''day_of_week'', JStr (day_name now)),
     (''market_session'', JStr (if is_market_hours now then ''regular_hours'' else ''closed''))]"

section \<open>Strings\<close>

text \<open>
  The string methods the scripts call. \<^verbatim>\<open>str.upper\<close> and \<^verbatim>\<open>str.lower\<close> change the letters
  a-z and A-Z and leave every other ASCII character as it is; \<^verbatim>\<open>str.strip\<close> removes white
  space from both ends; \<^verbatim>\<open>str.split(",")\<close> cuts at every comma and always returns at least
  one piece; \<^verbatim>\<open>",".join\<close> puts the pieces back together; \<^verbatim>\<open>str.startswith\<close> is \<open>prefix\<close>.
\<close>

definition is_lower :: "char \<Rightarrow> bool" where
  "is_lower c = (97 \<le> (of_char c :: nat) \<and> (of_char c :: nat) \<le> 122)"

definition is_upper :: "char \<Rightarrow> bool" where
  "is_upper c = (65 \<le> (of_char c :: nat) \<and> (of_char c :: nat) \<le> 90)"

definition upper_char :: "char \<Rightarrow> char" where
  "upper_char c = (if is_lower c then char_of ((of_char c :: nat) - 32) else c)"

definition lower_char :: "char \<Rightarrow> char" where
  "lower_char c = (if is_upper c then char_of ((of_char c :: nat) + 32) else c)"

definition upper :: "string \<Rightarrow> string" where
  "upper s = map upper_char s"

definition lower :: "string \<Rightarrow> string" where
  "lower s = map lower_char s"

definition is_space :: "char \<Rightarrow> bool" where
  "is_space c = ((of_char c :: nat) \<in> {9, 10, 11, 12, 13, 28, 29, 30, 31, 32})"

definition strip :: "string \<Rightarrow> string" where
  "strip s = rev (dropWhile is_space (rev (dropWhile is_space s)))"

fun split :: "char \<Rightarrow> string \<Rightarrow> string list" where
  "split sep [] = [[]]"
| "split sep (c # cs) =
     (if c = sep then [] # split sep cs
      else case split sep cs of
             [] \<Rightarrow> [[c]]
           | piece # pieces \<Rightarrow> (c # piece) # pieces)"

fun join :: "string \<Rightarrow> string list \<Rightarrow> string" where
  "join sep [] = []"
| "join sep [x] = x"
| "join sep (x # y # ys) = x @ sep @ join sep (y # ys)"

text \<open>
  Two things the scripts use are Python's own and not defined by them: the text \<^verbatim>\<open>repr\<close>
  gives for a value that is not a string (an f-string prints a string as it is and anything
  else through \<^verbatim>\<open>repr\<close>), and the text of an exception, \<^verbatim>\<open>str(e)\<close>. Every function that
  formats such text takes them as a parameter.
\<close>

record runtime =
  repr :: "json \<Rightarrow> string"
  str_exn :: "exn \<Rightarrow> string"

fun py_str :: "runtime \<Rightarrow> json \<Rightarrow> string" where
  "py_str rt (JStr s) = s"
| "py_str rt v = repr rt v"

section \<open>The outside world\<close>

text \<open>
  Everything is synchronous, so the HTTP service is a script of replies consumed in order
  (an empty script is a dead connection), and the requests sent are logged. \<open>body\<close> is the
  parsed JSON of the response, \<open>None\<close> when the text is not JSON. The rest of the world is
  what \<^verbatim>\<open>input()\<close> will read and the text of the \<^verbatim>\<open>.env\<close> file (\<open>None\<close>: no such file).
\<close>

datatype verb = GET | POST

record request =
  meth :: verb
  url :: string
  headers :: "(string \<times> string) list"
  params :: dict
  form :: dict

record response =
  status_code :: nat
  body :: "json option"

datatype reply = Answer response | Broken

record world =
  replies :: "reply list"
  sent :: "request list"
  stdin :: "string list"
  env_file :: "string option"

definition send :: "request \<Rightarrow> world \<Rightarrow> (exn + response) \<times> world" where
  "send rq w =
    (case replies w of
       [] \<Rightarrow> (Inl ConnectionError, w\<lparr>sent := sent w @ [rq]\<rparr>)
     | Broken # rest \<Rightarrow> (Inl ConnectionError, w\<lparr>replies := rest, sent := sent w @ [rq]\<rparr>)
     | Answer r # rest \<Rightarrow> (Inr r, w\<lparr>replies := rest, sent := sent w @ [rq]\<rparr>))"

text \<open>\<^verbatim>\<open>Response.raise_for_status\<close> raises for the 4xx and 5xx codes and for no other.\<close>

definition raise_for_status :: "response \<Rightarrow> exn + unit" where
  "raise_for_status r =
    (if 400 \<le> status_code r \<and> status_code r < 600 then Inl (HTTPError (status_code r))
     else Inr ())"

definition response_json :: "response \<Rightarrow> exn + json" where
  "response_json r = (case body r of None \<Rightarrow> Inl JSONDecodeError | Some j \<Rightarrow> Inr j)"

definition input :: "world \<Rightarrow> (exn + string) \<times> world" where
  "input w = (case stdin w of [] \<Rightarrow> (Inl EOFError, w) | l # ls \<Rightarrow> (Inr l, w\<lparr>stdin := ls\<rparr>))"

text \<open>
  The clause \<^verbatim>\<open>except requests.exceptions.RequestException: return default\<close> around a block
  whose outcome is \<open>r\<close>: a request exception becomes the default value, anything else goes on.
\<close>

definition except_RequestException :: "'a \<Rightarrow> (exn + 'a) \<times> 's \<Rightarrow> (exn + 'a) \<times> 's" where
  "except_RequestException dflt r =
    (case r of
       (Inl e, s) \<Rightarrow> if is_RequestException e then (Inr dflt, s) else (Inl e, s)
     | (Inr v, s) \<Rightarrow> (Inr v, s))"

section \<open>The API client\<close>

text \<open>\<^verbatim>\<open>class SchwabAPIClient\<close> (schwab_client.py). The tokens are whatever was last stored
  in them: a string or \<^verbatim>\<open>None\<close> from the environment, any JSON value after a refresh.\<close>

record client =
  base_url :: string
  client_id :: string
  client_secret :: string
  access_token :: json
  refresh_token :: json

definition of_env :: "string option \<Rightarrow> json" where
  "of_env v = (case v of None \<Rightarrow> JNull | Some s \<Rightarrow> JStr s)"

definition init :: "(string \<Rightarrow> string option) \<Rightarrow> exn + client" where
  "init getenv =
    (case (getenv ''SCHWAB_CLIENT_ID'', getenv ''SCHWAB_CLIENT_SECRET'') of
       (Some cid, Some secret) \<Rightarrow>
         if cid = [] \<or> secret = [] then
           Inl (ValueError ''Schwab API credentials not found in environment variables'')
         else Inr \<lparr>base_url = ''https://api.schwabapi.com'',
                   client_id = cid, client_secret = secret,
                   access_token = of_env (getenv ''SCHWAB_ACCESS_TOKEN''),
                   refresh_token = of_env (getenv ''SCHWAB_REFRESH_TOKEN'')\<rparr>
     | _ \<Rightarrow> Inl (ValueError ''Schwab API credentials not found in environment variables''))"

definition get_headers :: "runtime \<Rightarrow> client \<Rightarrow> bool \<Rightarrow> exn + (string \<times> string) list" where
  "get_headers rt c include_content_type =
    (if \<not> truthy (access_token c) then
       Inl (ValueError ''No access token available. Please authenticate first.'')
     else
       let headers = [(''Authorization'', ''Bearer '' @ py_str rt (access_token c))]
       in Inr (if include_content_type
               then headers @ [(''Content-Type'', ''application/json'')]
               else headers))"

text \<open>
  \<^verbatim>\<open>refresh_access_token\<close>. The block under \<^verbatim>\<open>try\<close> is \<open>refresh_try\<close>; a request exception
  makes the method return \<^verbatim>\<open>False\<close>. \<^verbatim>\<open>token_data.get\<close> needs a dict.
\<close>

definition refresh_try :: "client \<Rightarrow> world \<Rightarrow> (exn + bool) \<times> client \<times> world" where
  "refresh_try c w =
    (let token_url = base_url c @ ''/v1/oauth/token'';
         data = [(''grant_type'', JStr ''refresh_token''),
                 (''refresh_token'', refresh_token c),
                 (''client_id'', JStr (client_id c)),
                 (''client_secret'', JStr (client_secret c))];
         hdrs = [(''Content-Type'', ''application/x-www-form-urlencoded'')]
     in case send \<lparr>meth = POST, url = token_url, headers = hdrs, params = [], form = data\<rparr> w of
          (Inl e, w1) \<Rightarrow> (Inl e, c, w1)
        | (Inr resp, w1) \<Rightarrow>
           (case raise_for_status resp of
              Inl e \<Rightarrow> (Inl e, c, w1)
            | Inr u \<Rightarrow>
               (case response_json resp of
                  Inl e \<Rightarrow> (Inl e, c, w1)
                | Inr token_data \<Rightarrow>
                   (case py_get token_data ''access_token'' JNull of
                      Inl e \<Rightarrow> (Inl e, c, w1)
                    | Inr tok \<Rightarrow>
                       (let c1 = c\<lparr>access_token := tok\<rparr>
                        in case py_in ''refresh_token'' token_data of
                             Inl e \<Rightarrow> (Inl e, c1, w1)
                           | Inr False \<Rightarrow> (Inr True, c1, w1)
                           | Inr True \<Rightarrow>
                              (case py_getitem token_data ''refresh_token'' of
                                 Inl e \<Rightarrow> (Inl e, c1, w1)
                               | Inr new_rt \<Rightarrow> (Inr True, c1\<lparr>refresh_token := new_rt\<rparr>, w1)))))))"

definition refresh_access_token :: "client \<Rightarrow> world \<Rightarrow> (exn + bool) \<times> client \<times> world" where
  "refresh_access_token c w =
    (if \<not> truthy (refresh_token c) then (Inr False, c, w)
     else except_RequestException False (refresh_try c w))"

text \<open>
  What the three fetch methods do with a response once no refresh is pending:
  \<^verbatim>\<open>response.raise_for_status()\<close>, then \<^verbatim>\<open>response.json()\<close>.
\<close>

definition checked_json :: "response \<Rightarrow> exn + json" where
  "checked_json resp =
    (case raise_for_status resp of
       Inl e \<Rightarrow> Inl e
     | Inr u \<Rightarrow> response_json resp)"

text \<open>
  \<^verbatim>\<open>get_quote\<close>. The request goes out for the upper-cased symbol; the answer is searched
  for \<^verbatim>\<open>symbol\<close> as it was passed in. On a 401 followed by a successful refresh the method
  evaluates \<^verbatim>\<open>requests.get(url, headers=self._get_headers(), params=params)\<close>, and no
  \<^verbatim>\<open>params\<close> is bound in this method or in the module: after the headers are built the
  name lookup raises \<^verbatim>\<open>NameError\<close> and nothing is sent.
\<close>

definition lookup_symbol :: "string \<Rightarrow> json \<Rightarrow> exn + json" where
  "lookup_symbol symbol data =
    (case py_in symbol data of
       Inl e \<Rightarrow> Inl e
     | Inr True \<Rightarrow> py_getitem data symbol
     | Inr False \<Rightarrow> Inr JNull)"

definition get_quote_try :: "runtime \<Rightarrow> client \<Rightarrow> string \<Rightarrow> string \<Rightarrow> world
    \<Rightarrow> (exn + json) \<times> client \<times> world" where
  "get_quote_try rt c symbol url' w =
    (case get_headers rt c False of
       Inl e \<Rightarrow> (Inl e, c, w)
     | Inr h \<Rightarrow>
        (case send \<lparr>meth = GET, url = url', headers = h, params = [], form = []\<rparr> w of
           (Inl e, w1) \<Rightarrow> (Inl e, c, w1)
         | (Inr response, w1) \<Rightarrow>
            if status_code response = 401 then
              (case refresh_access_token c w1 of
                 (Inl e, c2, w2) \<Rightarrow> (Inl e, c2, w2)
               | (Inr False, c2, w2) \<Rightarrow> (Inr JNull, c2, w2)
               | (Inr True, c2, w2) \<Rightarrow>
                  (case get_headers rt c2 False of
                     Inl e \<Rightarrow> (Inl e, c2, w2)
                   | Inr h2 \<Rightarrow> (Inl (NameError ''params''), c2, w2)))
            else
              (case checked_json response of
                 Inl e \<Rightarrow> (Inl e, c, w1)
               | Inr data \<Rightarrow> (lookup_symbol symbol data, c, w1))))"

definition get_quote :: "runtime \<Rightarrow> client \<Rightarrow> string \<Rightarrow> world \<Rightarrow> (exn + json) \<times> client \<times> world" where
  "get_quote rt c symbol w =
    (let symbol_upper = upper symbol;
         url' = base_url c @ ''/marketdata/v1/quotes?symbols='' @ symbol_upper
     in except_RequestException JNull (get_quote_try rt c symbol url' w))"

text \<open>
  \<^verbatim>\<open>get_quotes_bulk\<close> and \<^verbatim>\<open>get_price_history\<close> share their control flow: one request,
  on a 401 one refresh and, if it returned \<^verbatim>\<open>True\<close>, the same request once more with fresh
  headers. They differ in the request and in the value returned on failure.
\<close>

definition get_quotes_bulk_try :: "runtime \<Rightarrow> client \<Rightarrow> string \<Rightarrow> world
    \<Rightarrow> (exn + json) \<times> client \<times> world" where
  "get_quotes_bulk_try rt c url' w =
    (case get_headers rt c False of
       Inl e \<Rightarrow> (Inl e, c, w)
     | Inr h \<Rightarrow>
        (case send \<lparr>meth = GET, url = url', headers = h, params = [], form = []\<rparr> w of
           (Inl e, w1) \<Rightarrow> (Inl e, c, w1)
         | (Inr response, w1) \<Rightarrow>
            if status_code response = 401 then
              (case refresh_access_token c w1 of
                 (Inl e, c2, w2) \<Rightarrow> (Inl e, c2, w2)
               | (Inr False, c2, w2) \<Rightarrow> (Inr (JObj []), c2, w2)
               | (Inr True, c2, w2) \<Rightarrow>
                  (case get_headers rt c2 False of
                     Inl e \<Rightarrow> (Inl e, c2, w2)
                   | Inr h2 \<Rightarrow>
                      (case send \<lparr>meth = GET, url = url', headers = h2, params = [], form = []\<rparr> w2 of
                         (Inl e, w3) \<Rightarrow> (Inl e, c2, w3)
                       | (Inr response2, w3) \<Rightarrow> (checked_json response2, c2, w3))))
            else (checked_json response, c, w1)))"

definition get_quotes_bulk :: "runtime \<Rightarrow> client \<Rightarrow> string list \<Rightarrow> world
    \<Rightarrow> (exn + json) \<times> client \<times> world" where
  "get_quotes_bulk rt c symbols w =
    (let symbols_str = join '','' (map upper symbols);
         url' = base_url c @ ''/marketdata/v1/quotes?symbols='' @ symbols_str
     in except_RequestException (JObj []) (get_quotes_bulk_try rt c url' w))"

definition get_price_history_try :: "runtime \<Rightarrow> client \<Rightarrow> string \<Rightarrow> dict \<Rightarrow> world
    \<Rightarrow> (exn + json) \<times> client \<times> world" where
  "get_price_history_try rt c url' ps w =
    (case get_headers rt c False of
       Inl e \<Rightarrow> (Inl e, c, w)
     | Inr h \<Rightarrow>
        (case send \<lparr>meth = GET, url = url', headers = h, params = ps, form = []\<rparr> w of
           (Inl e, w1) \<Rightarrow> (Inl e, c, w1)
         | (Inr response, w1) \<Rightarrow>
            if status_code response = 401 then
              (case refresh_access_token c w1 of
                 (Inl e, c2, w2) \<Rightarrow> (Inl e, c2, w2)
               | (Inr False, c2, w2) \<Rightarrow> (Inr JNull, c2, w2)
               | (Inr True, c2, w2) \<Rightarrow>
                  (case get_headers rt c2 False of
                     Inl e \<Rightarrow> (Inl e, c2, w2)
                   | Inr h2 \<Rightarrow>
                      (case send \<lparr>meth = GET, url = url', headers = h2, params = ps, form = []\<rparr> w2 of
                         (Inl e, w3) \<Rightarrow> (Inl e, c2, w3)
                       | (Inr response2, w3) \<Rightarrow> (checked_json response2, c2, w3))))
            else (checked_json response, c, w1)))"

definition get_price_history :: "runtime \<Rightarrow> client \<Rightarrow> string \<Rightarrow> string \<Rightarrow> int \<Rightarrow> string \<Rightarrow> int
    \<Rightarrow> world \<Rightarrow> (exn + json) \<times> client \<times> world" where
  "get_price_history rt c symbol period_type period frequency_type frequency w =
    (let url' = base_url c @ ''/marketdata/v1/pricehistory'';
         ps = [(''symbol'', JStr symbol),
               (''periodType'', JStr period_type),
               (''period'', JInt period),
               (''frequencyType'', JStr frequency_type),
               (''frequency'', JInt frequency)]
     in except_RequestException JNull (get_price_history_try rt c url' ps w))"

section \<open>The price tools\<close>

text \<open>
  tool_get_price_schwab.py keeps one module-level client, \<^verbatim>\<open>None\<close> when its construction
  failed. Both tools catch every exception and answer with an \<^verbatim>\<open>{"error": ...}\<close> dict.
\<close>

definition get_real_time_price :: "runtime \<Rightarrow> client option \<Rightarrow> string \<Rightarrow> world
    \<Rightarrow> dict \<times> client option \<times> world" where
  "get_real_time_price rt schwab_client symbol w =
    (case schwab_client of
       None \<Rightarrow> ([(''error'', JStr ''Schwab API client not initialized'')], None, w)
     | Some c \<Rightarrow>
        (case get_quote rt c symbol w of
           (Inl e, c1, w1) \<Rightarrow>
             ([(''error'', JStr (''Failed to fetch price for '' @ symbol @ '': '' @ str_exn rt e))],
              Some c1, w1)
         | (Inr quote_data, c1, w1) \<Rightarrow>
             if \<not> truthy quote_data then
               ([(''error'', JStr (''No quote data available for '' @ symbol))], Some c1, w1)
             else
               (case format_quote_for_trading quote_data of
                  Inl e \<Rightarrow>
                    ([(''error'', JStr (''Failed to fetch price for '' @ symbol @ '': '' @ str_exn rt e))],
                     Some c1, w1)
                | Inr formatted \<Rightarrow>
                    ([(''symbol'', JStr symbol),
                      (''current_price'', dict_get formatted ''last_price'' (JInt 0)),
                      (''bid_price'', dict_get formatted ''sell_price'' (JInt 0)),
                      (''ask_price'', dict_get formatted ''buy_price'' (JInt 0)),
                      (''high'', dict_get formatted ''high'' (JInt 0)),
                      (''low'', dict_get formatted ''low'' (JInt 0)),
                      (''volume'', dict_get formatted ''volume'' (JInt 0)),
                      (''timestamp'', dict_get formatted ''timestamp'' (JInt 0)),
                      (''status'', JStr ''success'')],
                     Some c1, w1))))"

text \<open>
  The loop of \<^verbatim>\<open>get_multiple_prices\<close> over \<^verbatim>\<open>symbol_list\<close>, with \<^verbatim>\<open>result\<close> as accumulator.
  \<^verbatim>\<open>result[k] = v\<close> is \<open>AList.update\<close>: an existing key keeps its place. The quote of a
  symbol is handed to the formatter wrapped as \<^verbatim>\<open>{symbol: quotes[symbol]}\<close>.
\<close>

fun prices_loop :: "json \<Rightarrow> string list \<Rightarrow> dict \<Rightarrow> exn + dict" where
  "prices_loop quotes [] result = Inr result"
| "prices_loop quotes (symbol # rest) result =
    (case py_in symbol quotes of
       Inl e \<Rightarrow> Inl e
     | Inr False \<Rightarrow>
         prices_loop quotes rest
           (AList.update symbol (JObj [(''error'', JStr ''No data available'')]) result)
     | Inr True \<Rightarrow>
        (case py_getitem quotes symbol of
           Inl e \<Rightarrow> Inl e
         | Inr q \<Rightarrow>
            (case format_quote_for_trading (JObj [(symbol, q)]) of
               Inl e \<Rightarrow> Inl e
             | Inr formatted \<Rightarrow>
                (let r1 = AList.update (symbol @ ''_price'') (dict_get formatted ''last_price'' (JInt 0)) result;
                     r2 = AList.update (symbol @ ''_bid'') (dict_get formatted ''sell_price'' (JInt 0)) r1;
                     r3 = AList.update (symbol @ ''_ask'') (dict_get formatted ''buy_price'' (JInt 0)) r2
                 in prices_loop quotes rest r3))))"

definition get_multiple_prices :: "runtime \<Rightarrow> client option \<Rightarrow> string \<Rightarrow> world
    \<Rightarrow> dict \<times> client option \<times> world" where
  "get_multiple_prices rt schwab_client symbols w =
    (case schwab_client of
       None \<Rightarrow> ([(''error'', JStr ''Schwab API client not initialized'')], None, w)
     | Some c \<Rightarrow>
        (let symbol_list = map strip (split (CHR '','') symbols)
         in case get_quotes_bulk rt c symbol_list w of
              (Inl e, c1, w1) \<Rightarrow>
                ([(''error'', JStr (''Failed to fetch prices: '' @ str_exn rt e))], Some c1, w1)
            | (Inr quotes, c1, w1) \<Rightarrow>
               (case prices_loop quotes symbol_list [] of
                  Inl e \<Rightarrow>
                    ([(''error'', JStr (''Failed to fetch prices: '' @ str_exn rt e))], Some c1, w1)
                | Inr result \<Rightarrow> (result, Some c1, w1))))"

section \<open>The token scripts\<close>

text \<open>
  \<^verbatim>\<open>base64.b64encode\<close> of the bytes of an ASCII string: three bytes give four characters
  of the alphabet, and a last group of one or two bytes is padded with \<open>=\<close>.
\<close>

definition b64_char :: "nat \<Rightarrow> char" where
  "b64_char n = (''ABCDEFGHIJKLMNOPQRSTUVWXYZabcdefghijklmnopqrstuvwxyz0123456789+/'') ! n"

fun b64encode :: "nat list \<Rightarrow> string" where
  "b64encode [] = []"
| "b64encode [a] = [b64_char (a div 4), b64_char ((a mod 4) * 16), CHR ''='', CHR ''='']"
| "b64encode [a, b] =
     [b64_char (a div 4), b64_char ((a mod 4) * 16 + b div 16), b64_char ((b mod 16) * 4), CHR ''='']"
| "b64encode (a # b # c # rest) =
     [b64_char (a div 4), b64_char ((a mod 4) * 16 + b div 16),
      b64_char ((b mod 16) * 4 + c div 64), b64_char (c mod 64)] @ b64encode rest"

definition encode :: "string \<Rightarrow> nat list" where
  "encode s = map of_char s"

definition basic_auth :: "string \<Rightarrow> string" where
  "basic_auth credentials = ''Basic '' @ b64encode (encode credentials)"

text \<open>
  The \<^verbatim>\<open>.env\<close> file is text, opened with \<^verbatim>\<open>open(env_path, 'r')\<close>: reading translates every
  \<^verbatim>\<open>\r\n\<close> and every lone \<^verbatim>\<open>\r\<close> into \<^verbatim>\<open>\n\<close> (\<open>read_text\<close>). \<^verbatim>\<open>readlines\<close> cuts what was read
  after every newline, each line keeping its newline (\<open>cut_lines\<close>). What the loop writes,
  piece after piece, is the new text; writing leaves \<^verbatim>\<open>\n\<close> as it is.
\<close>

fun read_text :: "string \<Rightarrow> string" where
  "read_text [] = []"
| "read_text [c] = (if c = CHR 0x0D then [CHR 0x0A] else [c])"
| "read_text (c # c' # cs) =
     (if c = CHR 0x0D then
        (if c' = CHR 0x0A then CHR 0x0A # read_text cs
         else CHR 0x0A # read_text (c' # cs))
      else c # read_text (c' # cs))"

fun cut_lines :: "string \<Rightarrow> string list" where
  "cut_lines [] = []"
| "cut_lines (c # cs) =
     (if c = CHR 0x0A then [c] # cut_lines cs
      else case cut_lines cs of
             [] \<Rightarrow> [[c]]
           | l # ls \<Rightarrow> (c # l) # ls)"

definition readlines :: "string \<Rightarrow> string list" where
  "readlines content = cut_lines (read_text content)"

text \<open>\<^verbatim>\<open>update_env_file\<close> (schwab_oauth.py): \<open>write_tokens\<close> is its loop, one piece written
  per line read.\<close>

fun write_tokens :: "string \<Rightarrow> string \<Rightarrow> string list \<Rightarrow> string list" where
  "write_tokens access refresh [] = []"
| "write_tokens access refresh (line # rest) =
     (if prefix ''SCHWAB_ACCESS_TOKEN='' line then ''SCHWAB_ACCESS_TOKEN='' @ access @ [CHR 0x0A]
      else if prefix ''SCHWAB_REFRESH_TOKEN='' line then ''SCHWAB_REFRESH_TOKEN='' @ refresh @ [CHR 0x0A]
      else line) # write_tokens access refresh rest"

definition update_env_file :: "runtime \<Rightarrow> json \<Rightarrow> json \<Rightarrow> world \<Rightarrow> (exn + unit) \<times> world" where
  "update_env_file rt access refresh w =
    (case env_file w of
       None \<Rightarrow> (Inl FileNotFoundError, w)
     | Some text \<Rightarrow>
        (let lines = readlines text
         in (Inr (), w\<lparr>env_file :=
                Some (concat (write_tokens (py_str rt access) (py_str rt refresh) lines))\<rparr>)))"

definition CALLBACK_URL :: string where
  "CALLBACK_URL = ''https://lively-tarsier-11a576.netlify.app/callback.html''"

text \<open>
  \<^verbatim>\<open>exchange_code_for_tokens\<close> (schwab_oauth.py). \<^verbatim>\<open>CLIENT_ID\<close> and \<^verbatim>\<open>CLIENT_SECRET\<close> are the
  module's globals, read from the environment. The two \<^verbatim>\<open>tokens[...]\<close> reads are those of the
  \<^verbatim>\<open>print\<close> calls; printing itself is not modelled.
\<close>

definition exchange_try :: "runtime \<Rightarrow> string option \<Rightarrow> string option \<Rightarrow> string \<Rightarrow> world
    \<Rightarrow> (exn + json) \<times> world" where
  "exchange_try rt CLIENT_ID CLIENT_SECRET auth_code w =
    (let credentials = py_str rt (of_env CLIENT_ID) @ '':'' @ py_str rt (of_env CLIENT_SECRET);
         hdrs = [(''Authorization'', basic_auth credentials),
                 (''Content-Type'', ''application/x-www-form-urlencoded'')];
         data = [(''grant_type'', JStr ''authorization_code''),
                 (''code'', JStr auth_code),
                 (''redirect_uri'', JStr CALLBACK_URL)]
     in case send \<lparr>meth = POST, url = ''https://api.schwabapi.com/v1/oauth/token'',
                    headers = hdrs, params = [], form = data\<rparr> w of
          (Inl e, w1) \<Rightarrow> (Inl e, w1)
        | (Inr resp, w1) \<Rightarrow>
           (case checked_json resp of
              Inl e \<Rightarrow> (Inl e, w1)
            | Inr tokens \<Rightarrow>
               (case py_getitem tokens ''access_token'' of
                  Inl e \<Rightarrow> (Inl e, w1)
                | Inr access \<Rightarrow>
                   (case py_getitem tokens ''refresh_token'' of
                      Inl e \<Rightarrow> (Inl e, w1)
                    | Inr refresh \<Rightarrow>
                       (case py_get tokens ''expires_in'' (JInt 0) of
                          Inl e \<Rightarrow> (Inl e, w1)
                        | Inr expires \<Rightarrow>
                           (case input w1 of
                              (Inl e, w2) \<Rightarrow> (Inl e, w2)
                            | (Inr answer, w2) \<Rightarrow>
                               if lower (strip answer) = ''y'' then
                                 (case update_env_file rt access refresh w2 of
                                    (Inl e, w3) \<Rightarrow> (Inl e, w3)
                                  | (Inr u, w3) \<Rightarrow> (Inr tokens, w3))
                               else (Inr tokens, w2)))))))"

definition exchange_code_for_tokens :: "runtime \<Rightarrow> string option \<Rightarrow> string option \<Rightarrow> string \<Rightarrow> world
    \<Rightarrow> (exn + json) \<times> world" where
  "exchange_code_for_tokens rt CLIENT_ID CLIENT_SECRET auth_code w =
    except_RequestException JNull (exchange_try rt CLIENT_ID CLIENT_SECRET auth_code w)"

text \<open>
  refresh_token.py is a script: its module body is the program. It stops with status 1
  when a credential is missing; otherwise everything runs under \<^verbatim>\<open>except Exception\<close> and
  the script ends with status 0. The loop that rewrites \<^verbatim>\<open>.env\<close> reads \<^verbatim>\<open>tokens\<close> again for
  every matching line, after the file has been opened for writing; \<open>out\<close> is the text
  written so far.
\<close>

fun rewrite_refreshed :: "runtime \<Rightarrow> json \<Rightarrow> string \<Rightarrow> string list \<Rightarrow> string
    \<Rightarrow> (exn + unit) \<times> string" where
  "rewrite_refreshed rt tokens REFRESH_TOKEN [] out = (Inr (), out)"
| "rewrite_refreshed rt tokens REFRESH_TOKEN (line # rest) out =
    (if prefix ''SCHWAB_ACCESS_TOKEN='' line then
       (case py_getitem tokens ''access_token'' of
          Inl e \<Rightarrow> (Inl e, out)
        | Inr access \<Rightarrow>
            rewrite_refreshed rt tokens REFRESH_TOKEN rest
              (out @ ''SCHWAB_ACCESS_TOKEN='' @ py_str rt access @ [CHR 0x0A]))
     else if prefix ''SCHWAB_REFRESH_TOKEN='' line then
       (case py_get tokens ''refresh_token'' (JStr REFRESH_TOKEN) of
          Inl e \<Rightarrow> (Inl e, out)
        | Inr new_refresh \<Rightarrow>
            rewrite_refreshed rt tokens REFRESH_TOKEN rest
              (out @ ''SCHWAB_REFRESH_TOKEN='' @ py_str rt new_refresh @ [CHR 0x0A]))
     else rewrite_refreshed rt tokens REFRESH_TOKEN rest (out @ line))"

definition refresh_script_try :: "runtime \<Rightarrow> string \<Rightarrow> string \<Rightarrow> string \<Rightarrow> world
    \<Rightarrow> (exn + unit) \<times> world" where
  "refresh_script_try rt CLIENT_ID CLIENT_SECRET REFRESH_TOKEN w =
    (let credentials = CLIENT_ID @ '':'' @ CLIENT_SECRET;
         hdrs = [(''Authorization'', basic_auth credentials),
                 (''Content-Type'', ''application/x-www-form-urlencoded'')];
         data = [(''grant_type'', JStr ''refresh_token''),
                 (''refresh_token'', JStr REFRESH_TOKEN)]
     in case send \<lparr>meth = POST, url = ''https://api.schwabapi.com/v1/oauth/token'',
                    headers = hdrs, params = [], form = data\<rparr> w of
          (Inl e, w1) \<Rightarrow> (Inl e, w1)
        | (Inr resp, w1) \<Rightarrow>
           if status_code resp = 200 then
             (case response_json resp of
                Inl e \<Rightarrow> (Inl e, w1)
              | Inr tokens \<Rightarrow>
                 (case py_getitem tokens ''access_token'' of
                    Inl e \<Rightarrow> (Inl e, w1)
                  | Inr access \<Rightarrow>
                     (case py_get tokens ''refresh_token'' (JStr REFRESH_TOKEN) of
                        Inl e \<Rightarrow> (Inl e, w1)
                      | Inr shown \<Rightarrow>
                         (case py_get tokens ''expires_in'' (JInt 0) of
                            Inl e \<Rightarrow> (Inl e, w1)
                          | Inr expires \<Rightarrow>
                             (case input w1 of
                                (Inl e, w2) \<Rightarrow> (Inl e, w2)
                              | (Inr answer, w2) \<Rightarrow>
                                 if lower (strip answer) = ''y'' then
                                   (case env_file w2 of
                                      None \<Rightarrow> (Inl FileNotFoundError, w2)
                                    | Some text \<Rightarrow>
                                       (case rewrite_refreshed rt tokens REFRESH_TOKEN
                                               (readlines text) [] of
                                          (r, out) \<Rightarrow> (r, w2\<lparr>env_file := Some out\<rparr>)))
                                 else (Inr (), w2))))))
           else (Inr (), w1))"

definition refresh_token_script :: "runtime \<Rightarrow> (string \<Rightarrow> string option) \<Rightarrow> world \<Rightarrow> nat \<times> world" where
  "refresh_token_script rt getenv w =
    (case (getenv ''SCHWAB_CLIENT_ID'', getenv ''SCHWAB_CLIENT_SECRET'',
           getenv ''SCHWAB_REFRESH_TOKEN'') of
       (Some cid, Some secret, Some rtok) \<Rightarrow>
         if cid = [] \<or> secret = [] \<or> rtok = [] then (1, w)
         else (0, snd (refresh_script_try rt cid secret rtok w))
     | _ \<Rightarrow> (1, w))"

section \<open>Example inputs\<close>

text \<open>
  A client with a token pair, a world whose server follows a given script, and a runtime.
  The examples format strings only, so the texts of the runtime are never looked at.
\<close>

definition demo_runtime :: runtime where
  "demo_runtime = \<lparr>repr = (\<lambda>v. ''None''), str_exn = (\<lambda>e. ''error'')\<rparr>"

definition demo_client :: client where
  "demo_client = \<lparr>base_url = ''https://api.schwabapi.com'', client_id = ''id'',
      client_secret = ''secret'', access_token = JStr ''old'', refresh_token = JStr ''r0''\<rparr>"

definition stub :: "reply list \<Rightarrow> world" where
  "stub rs = \<lparr>replies = rs, sent = [], stdin = [], env_file = None\<rparr>"

definition ok :: "json \<Rightarrow> reply" where
  "ok j = Answer \<lparr>status_code = 200, body = Some j\<rparr>"

definition status_only :: "nat \<Rightarrow> reply" where
  "status_only n = Answer \<lparr>status_code = n, body = None\<rparr>"

definition aapl_quote :: json where
  "aapl_quote = JObj [(''quote'',
      JObj [(''lastPrice'', JInt 150), (''bidPrice'', JInt 149), (''askPrice'', JInt 151)])]"

text \<open>An environment with all three credentials set, and a \<^verbatim>\<open>.env\<close> file of three lines.\<close>

definition demo_getenv :: "string \<Rightarrow> string option" where
  "demo_getenv = map_of [(''SCHWAB_CLIENT_ID'', ''id''), (''SCHWAB_CLIENT_SECRET'', ''secret''),
                         (''SCHWAB_REFRESH_TOKEN'', ''r0'')]"

definition demo_env :: string where
  "demo_env = ''SCHWAB_ACCESS_TOKEN=old'' @ [CHR 0x0A] @ ''SCHWAB_REFRESH_TOKEN=r0'' @ [CHR 0x0A]
              @ ''OTHER=1'' @ [CHR 0x0A]"

definition demo_desk :: "reply list \<Rightarrow> world" where
  "demo_desk rs = \<lparr>replies = rs, sent = [], stdin = [''y''], env_file = Some demo_env\<rparr>"

section \<open>Counting requests\<close>

text \<open>
  How many requests of one method the log holds, and the condition on the server's next
  replies under which \<^verbatim>\<open>refresh_access_token\<close> answers \<^verbatim>\<open>False\<close>: there is no refresh
  token to send, or the request gets no answer, an answer with a 4xx or 5xx status, or an
  answer whose body is not JSON. That this condition is the same as the method returning
  \<^verbatim>\<open>False\<close> is lemma \<open>refresh_False_iff\<close> below.
\<close>

definition count_sent :: "verb \<Rightarrow> world \<Rightarrow> nat" where
  "count_sent m w = length (filter (\<lambda>rq. meth rq = m) (sent w))"

definition refresh_turned_down :: "client \<Rightarrow> reply list \<Rightarrow> bool" where
  "refresh_turned_down c rs =
    (\<not> truthy (refresh_token c) \<or>
     (case rs of
        [] \<Rightarrow> True
      | Broken # rest \<Rightarrow> True
      | Answer r # rest \<Rightarrow> (400 \<le> status_code r \<and> status_code r < 600) \<or> body r = None))"

text \<open>
  The condition under which \<^verbatim>\<open>refresh_access_token\<close> answers \<^verbatim>\<open>True\<close>: a refresh token is
  there, and the request is answered with a status outside 4xx and 5xx and a body that is a
  JSON object (lemma \<open>refresh_True_iff\<close> below). In the one remaining case, a JSON body that
  is not an object, the method raises \<^verbatim>\<open>AttributeError\<close>.
\<close>

definition refresh_goes_through :: "client \<Rightarrow> reply list \<Rightarrow> bool" where
  "refresh_goes_through c rs =
    (truthy (refresh_token c) \<and>
     (case rs of
        Answer r # rest \<Rightarrow>
          \<not> (400 \<le> status_code r \<and> status_code r < 600) \<and>
          (case body r of Some (JObj d) \<Rightarrow> True | _ \<Rightarrow> False)
      | _ \<Rightarrow> False))"

section \<open>Properties\<close>

subsection \<open>Market status\<close>

text \<open>
  C9. With the time of day counted in minutes since midnight, the market is reported open
  exactly on weekday indices below 5 from 9:30 (minute 570) to 16:00 (minute 960), both
  included; at hour 16 only minute 0 is inside. The session is "regular_hours" exactly when
  \<open>is_open\<close> is true. A clock reading has its minute below 60.
\<close>

theorem get_market_status_open_iff:
  assumes "minute now < 60"
  shows "map_of (get_market_status now) ''is_open'' =
           Some (JBool (weekday now < 5 \<and> 570 \<le> 60 * hour now + minute now
                        \<and> 60 * hour now + minute now \<le> 960))
       \<and> (60 * hour now + minute now \<le> 960 \<and> hour now = 16 \<longrightarrow> minute now = 0)
       \<and> (map_of (get_market_status now) ''market_session'' = Some (JStr ''regular_hours'')
            \<longleftrightarrow> map_of (get_market_status now) ''is_open'' = Some (JBool True))
       \<and> (map_of (get_market_status now) ''market_session'' = Some (JStr ''closed'')
            \<longleftrightarrow> map_of (get_market_status now) ''is_open'' = Some (JBool False))"
proof -
  have open_iff: "is_market_hours now \<longleftrightarrow>
      (weekday now < 5 \<and> 570 \<le> 60 * hour now + minute now \<and> 60 * hour now + minute now \<le> 960)"
    using assms unfolding is_market_hours_def Let_def by arith
  show ?thesis
    using open_iff by (simp add: get_market_status_def)
qed

theorem get_market_status_open_iff_witness:
  "map_of (get_market_status \<lparr>weekday = 4, hour = 16, minute = 0,
        isoformat = ''2025-01-03T16:00:30'', day_name = ''Friday''\<rparr>) ''is_open'' = Some (JBool True)
   \<and> map_of (get_market_status \<lparr>weekday = 4, hour = 16, minute = 1,
        isoformat = ''2025-01-03T16:01:00'', day_name = ''Friday''\<rparr>) ''is_open'' = Some (JBool False)"
  using get_market_status_open_iff [of "\<lparr>weekday = 4, hour = 16, minute = 0,
        isoformat = ''2025-01-03T16:00:30'', day_name = ''Friday''\<rparr>"]
    get_market_status_open_iff [of "\<lparr>weekday = 4, hour = 16, minute = 1,
        isoformat = ''2025-01-03T16:01:00'', day_name = ''Friday''\<rparr>"]
  by simp

subsection \<open>Quote formatting\<close>

lemma keys_map_of: "k \<in> keys d \<longleftrightarrow> map_of d k \<noteq> None"
  by (simp add: keys_def map_of_eq_None_iff)

text \<open>
  C10 (as amended). \<^verbatim>\<open>format_quote_for_trading\<close> returns the empty dict for a falsy input
  and for a dict without the key "quote". For a dict whose "quote" entry is itself a dict it
  returns the seven fields: \<open>buy_price\<close> is askPrice if present, else lastPrice if present,
  else 0; \<open>sell_price\<close> is bidPrice if present, else lastPrice if present, else 0; the other
  five default to 0. When the "quote" entry is not a dict, the call raises
  \<^verbatim>\<open>AttributeError\<close>.
\<close>

theorem format_quote_for_trading_cases:
  "(\<not> truthy quote_data \<longrightarrow> format_quote_for_trading quote_data = Inr [])
 \<and> (\<forall>d. quote_data = JObj d \<and> ''quote'' \<notin> keys d \<longrightarrow> format_quote_for_trading quote_data = Inr [])
 \<and> (\<forall>d q. quote_data = JObj d \<and> map_of d ''quote'' = Some (JObj q) \<longrightarrow>
       (\<exists>r. format_quote_for_trading quote_data = Inr r
          \<and> map fst r = [''buy_price'', ''sell_price'', ''last_price'', ''high'', ''low'',
                          ''volume'', ''timestamp'']
          \<and> map_of r ''buy_price'' = Some (case map_of q ''askPrice'' of Some v \<Rightarrow> v
               | None \<Rightarrow> (case map_of q ''lastPrice'' of Some v \<Rightarrow> v | None \<Rightarrow> JInt 0))
          \<and> map_of r ''sell_price'' = Some (case map_of q ''bidPrice'' of Some v \<Rightarrow> v
               | None \<Rightarrow> (case map_of q ''lastPrice'' of Some v \<Rightarrow> v | None \<Rightarrow> JInt 0))
          \<and> map_of r ''last_price'' = Some (case map_of q ''lastPrice'' of Some v \<Rightarrow> v | None \<Rightarrow> JInt 0)
          \<and> map_of r ''high'' = Some (case map_of q ''highPrice'' of Some v \<Rightarrow> v | None \<Rightarrow> JInt 0)
          \<and> map_of r ''low'' = Some (case map_of q ''lowPrice'' of Some v \<Rightarrow> v | None \<Rightarrow> JInt 0)
          \<and> map_of r ''volume'' = Some (case map_of q ''totalVolume'' of Some v \<Rightarrow> v | None \<Rightarrow> JInt 0)
          \<and> map_of r ''timestamp'' = Some (case map_of q ''quoteTime'' of Some v \<Rightarrow> v | None \<Rightarrow> JInt 0)))
 \<and> (\<forall>d v. quote_data = JObj d \<and> map_of d ''quote'' = Some v \<and> (\<forall>q. v \<noteq> JObj q) \<longrightarrow>
       format_quote_for_trading quote_data = Inl AttributeError)"
proof (intro conjI allI impI)
  assume "\<not> truthy quote_data"
  then show "format_quote_for_trading quote_data = Inr []"
    by (simp add: format_quote_for_trading_def)
next
  fix d assume "quote_data = JObj d \<and> ''quote'' \<notin> keys d"
  then show "format_quote_for_trading quote_data = Inr []"
    by (simp add: format_quote_for_trading_def)
next
  fix d q assume h: "quote_data = JObj d \<and> map_of d ''quote'' = Some (JObj q)"
  then have "d \<noteq> []" and "''quote'' \<in> keys d"
    by (auto simp: keys_map_of)
  with h show "\<exists>r. format_quote_for_trading quote_data = Inr r
          \<and> map fst r = [''buy_price'', ''sell_price'', ''last_price'', ''high'', ''low'',
                          ''volume'', ''timestamp'']
          \<and> map_of r ''buy_price'' = Some (case map_of q ''askPrice'' of Some v \<Rightarrow> v
               | None \<Rightarrow> (case map_of q ''lastPrice'' of Some v \<Rightarrow> v | None \<Rightarrow> JInt 0))
          \<and> map_of r ''sell_price'' = Some (case map_of q ''bidPrice'' of Some v \<Rightarrow> v
               | None \<Rightarrow> (case map_of q ''lastPrice'' of Some v \<Rightarrow> v | None \<Rightarrow> JInt 0))
          \<and> map_of r ''last_price'' = Some (case map_of q ''lastPrice'' of Some v \<Rightarrow> v | None \<Rightarrow> JInt 0)
          \<and> map_of r ''high'' = Some (case map_of q ''highPrice'' of Some v \<Rightarrow> v | None \<Rightarrow> JInt 0)
          \<and> map_of r ''low'' = Some (case map_of q ''lowPrice'' of Some v \<Rightarrow> v | None \<Rightarrow> JInt 0)
          \<and> map_of r ''volume'' = Some (case map_of q ''totalVolume'' of Some v \<Rightarrow> v | None \<Rightarrow> JInt 0)
          \<and> map_of r ''timestamp'' = Some (case map_of q ''quoteTime'' of Some v \<Rightarrow> v | None \<Rightarrow> JInt 0)"
    by (simp add: format_quote_for_trading_def dict_get_def)
next
  fix d v assume h: "quote_data = JObj d \<and> map_of d ''quote'' = Some v \<and> (\<forall>q. v \<noteq> JObj q)"
  then have "d \<noteq> []" and "''quote'' \<in> keys d"
    by (auto simp: keys_map_of)
  with h show "format_quote_for_trading quote_data = Inl AttributeError"
    by (cases v) (simp_all add: format_quote_for_trading_def)
qed

text \<open>The three returning cases at concrete inputs.\<close>

theorem format_quote_for_trading_cases_witness:
  "format_quote_for_trading JNull = Inr []
 \<and> format_quote_for_trading (JObj [(''symbol'', JStr ''AAPL'')]) = Inr []
 \<and> (\<exists>r. format_quote_for_trading (JObj [(''quote'', JObj [(''bidPrice'', JInt 149), (''lastPrice'', JInt 150)])]) = Inr r
       \<and> map_of r ''buy_price'' = Some (JInt 150) \<and> map_of r ''sell_price'' = Some (JInt 149)
       \<and> map_of r ''high'' = Some (JInt 0))"
  using format_quote_for_trading_cases [of JNull]
    format_quote_for_trading_cases [of "JObj [(''symbol'', JStr ''AAPL'')]"]
    format_quote_for_trading_cases [of "JObj [(''quote'', JObj [(''bidPrice'', JInt 149), (''lastPrice'', JInt 150)])]"]
  by (auto simp: keys_def)

text \<open>
  The claim as first stated promises a dict for every truthy input with a "quote" key. The
  input \<^verbatim>\<open>{"quote": 5}\<close> is one, and the call raises.
\<close>

theorem format_quote_for_trading_non_dict_quote_counterexample:
  "truthy (JObj [(''quote'', JInt 5)])
 \<and> ''quote'' \<in> keys [(''quote'', JInt 5)]
 \<and> format_quote_for_trading (JObj [(''quote'', JInt 5)]) = Inl AttributeError"
  by (simp add: format_quote_for_trading_def keys_def)

subsection \<open>Looking up a quote\<close>

lemma upper_char_changes: "is_lower ch \<Longrightarrow> upper_char ch \<noteq> ch"
proof
  assume low: "is_lower ch" and same: "upper_char ch = ch"
  define n where "n = (of_char ch :: nat)"
  from low have range: "97 \<le> n" "n \<le> 122"
    by (simp_all add: is_lower_def n_def)
  from low same have "char_of (n - 32) = ch"
    by (simp add: upper_char_def n_def)
  then have "(of_char (char_of (n - 32) :: char) :: nat) = n"
    by (simp add: n_def)
  then have eq: "(n - 32) mod 256 = n"
    by (simp only: of_char_of)
  from range have "(n - 32) mod 256 = n - 32"
    by simp
  with eq range show False
    by simp
qed

lemma upper_changes: "\<exists>ch\<in>set s. is_lower ch \<Longrightarrow> upper s \<noteq> s"
proof
  assume "\<exists>ch\<in>set s. is_lower ch" and "upper s = s"
  then obtain ch where "ch \<in> set s" "is_lower ch" by blast
  from \<open>upper s = s\<close> have "map upper_char s = map id s"
    by (simp add: upper_def)
  then have "\<forall>x\<in>set s. upper_char x = id x"
    by (simp only: map_eq_conv)
  with \<open>ch \<in> set s\<close> have "upper_char ch = ch" by simp
  with \<open>is_lower ch\<close> show False using upper_char_changes by blast
qed

text \<open>
  C8. When \<^verbatim>\<open>symbol\<close> contains a lower-case letter and the server answers the request with
  a 2xx status and a dict keyed by the symbol that was requested (the upper-cased one),
  \<^verbatim>\<open>get_quote\<close> returns \<^verbatim>\<open>None\<close>: the one request it sends names \<open>upper symbol\<close>, and the
  answer is searched for \<open>symbol\<close> itself.
\<close>

theorem get_quote_lower_case_symbol_None:
  assumes "\<exists>ch\<in>set symbol. is_lower ch"
    and "truthy (access_token c)"
    and "replies w = Answer resp # rest"
    and "200 \<le> status_code resp" and "status_code resp < 300"
    and "body resp = Some (JObj d)"
    and "keys d \<subseteq> {upper symbol}"
  shows "get_quote rt c symbol w =
          (Inr JNull, c,
           w\<lparr>replies := rest,
             sent := sent w @
               [\<lparr>meth = GET,
                 url = base_url c @ ''/marketdata/v1/quotes?symbols='' @ upper symbol,
                 headers = [(''Authorization'', ''Bearer '' @ py_str rt (access_token c))],
                 params = [], form = []\<rparr>]\<rparr>)"
proof -
  have "upper symbol \<noteq> symbol"
    using assms(1) by (rule upper_changes)
  with assms(7) have absent: "symbol \<notin> keys d" by auto
  have json: "checked_json resp = Inr (JObj d)"
    using assms(4-6) by (simp add: checked_json_def raise_for_status_def response_json_def)
  have look: "lookup_symbol symbol (JObj d) = Inr JNull"
    using absent by (simp add: lookup_symbol_def)
  from assms(5) have not401: "status_code resp \<noteq> 401" by simp
  show ?thesis
    using assms(2,3) json look not401
    by (simp add: get_quote_def get_quote_try_def get_headers_def send_def
        except_RequestException_def)
qed

text \<open>\<^verbatim>\<open>get_quote("aapl")\<close> against a server that returns the quote of AAPL.\<close>

theorem get_quote_lower_case_symbol_None_witness:
  "get_quote demo_runtime demo_client ''aapl'' (stub [ok (JObj [(''AAPL'', aapl_quote)])]) =
     (Inr JNull, demo_client,
      \<lparr>replies = [],
        sent = [\<lparr>meth = GET,
                 url = ''https://api.schwabapi.com/marketdata/v1/quotes?symbols=AAPL'',
                 headers = [(''Authorization'', ''Bearer old'')],
                 params = [], form = []\<rparr>],
        stdin = [], env_file = None\<rparr>)"
proof -
  have h1: "\<exists>ch\<in>set ''aapl''. is_lower ch" by code_simp
  have h2: "truthy (access_token demo_client)" by code_simp
  have h3: "replies (stub [ok (JObj [(''AAPL'', aapl_quote)])]) =
      [Answer \<lparr>status_code = 200, body = Some (JObj [(''AAPL'', aapl_quote)])\<rparr>]"
    by (simp add: stub_def ok_def)
  have h7: "keys [(''AAPL'', aapl_quote)] \<subseteq> {upper ''aapl''}" by code_simp
  have up: "upper ''aapl'' = ''AAPL''" by code_simp
  show ?thesis
    using get_quote_lower_case_symbol_None [OF h1 h2 h3 _ _ _ h7, of demo_runtime]
    by (simp add: up demo_client_def stub_def)
qed

subsection \<open>Requests sent by a fetch\<close>

text \<open>Each request is logged once; a refresh sends at most one POST and no GET.\<close>

lemma count_sent_send:
  "send rq w = (r, w') \<Longrightarrow>
     count_sent GET w' = count_sent GET w + (if meth rq = GET then 1 else 0)
   \<and> count_sent POST w' = count_sent POST w + (if meth rq = POST then 1 else 0)"
  by (auto simp: send_def count_sent_def split: list.splits reply.splits)

lemma count_sent_refresh:
  "refresh_access_token c w = (r, c', w') \<Longrightarrow>
     count_sent GET w' = count_sent GET w \<and> count_sent POST w' \<le> count_sent POST w + 1"
  unfolding refresh_access_token_def refresh_try_def except_RequestException_def Let_def
  by (auto split: if_splits prod.splits sum.splits bool.splits dest!: count_sent_send)

lemma py_get_Inl: "py_get v k dflt = Inl e \<Longrightarrow> e = AttributeError"
  by (cases v) auto

lemma py_in_Inl: "py_in k v = Inl e \<Longrightarrow> e = TypeError"
  by (cases v) auto

lemma py_getitem_Inl: "py_getitem v k = Inl e \<Longrightarrow> e = TypeError \<or> e = KeyError k"
  by (cases v) (auto split: option.splits)

lemma refresh_False_iff:
  "fst (refresh_access_token c w) = Inr False \<longleftrightarrow> refresh_turned_down c (replies w)"
  unfolding refresh_access_token_def refresh_try_def except_RequestException_def Let_def
    refresh_turned_down_def send_def raise_for_status_def response_json_def
  by (auto split: if_splits prod.splits sum.splits bool.splits list.splits reply.splits option.splits
      dest: py_get_Inl py_in_Inl py_getitem_Inl)

lemma except_state: "except_RequestException dflt x = (r, s) \<Longrightarrow> s = snd x"
  by (auto simp: except_RequestException_def split: prod.splits sum.splits if_splits)

lemma count_bulk_try:
  "get_quotes_bulk_try rt c u w = (r, c', w') \<Longrightarrow>
     count_sent POST w' \<le> count_sent POST w + 1 \<and> count_sent GET w' \<le> count_sent GET w + 2"
  unfolding get_quotes_bulk_try_def
  by (auto split: if_splits prod.splits sum.splits bool.splits dest!: count_sent_send count_sent_refresh)

lemma count_history_try:
  "get_price_history_try rt c u ps w = (r, c', w') \<Longrightarrow>
     count_sent POST w' \<le> count_sent POST w + 1 \<and> count_sent GET w' \<le> count_sent GET w + 2"
  unfolding get_price_history_try_def
  by (auto split: if_splits prod.splits sum.splits bool.splits dest!: count_sent_send count_sent_refresh)

lemma count_quote_try:
  "get_quote_try rt c symbol u w = (r, c', w') \<Longrightarrow>
     count_sent POST w' \<le> count_sent POST w + 1 \<and> count_sent GET w' \<le> count_sent GET w + 1"
  unfolding get_quote_try_def
  by (auto split: if_splits prod.splits sum.splits bool.splits dest!: count_sent_send count_sent_refresh)


lemma refresh_access_token_True:
  assumes "truthy (refresh_token c)"
    and "replies w = Answer r # rest"
    and "\<not> (400 \<le> status_code r \<and> status_code r < 600)"
    and "body r = Some (JObj d)"
  shows "refresh_access_token c w =
          (Inr True,
           c\<lparr>access_token := dict_get d ''access_token'' JNull,
             refresh_token := dict_get d ''refresh_token'' (refresh_token c)\<rparr>,
           w\<lparr>replies := rest,
             sent := sent w @
               [\<lparr>meth = POST, url = base_url c @ ''/v1/oauth/token'',
                 headers = [(''Content-Type'', ''application/x-www-form-urlencoded'')],
                 params = [],
                 form = [(''grant_type'', JStr ''refresh_token''),
                         (''refresh_token'', refresh_token c),
                         (''client_id'', JStr (client_id c)),
                         (''client_secret'', JStr (client_secret c))]\<rparr>]\<rparr>)"
proof (cases "''refresh_token'' \<in> keys d")
  case True
  then obtain v where v: "map_of d ''refresh_token'' = Some v"
    by (auto simp: keys_map_of)
  show ?thesis
    using assms True v
    by (simp add: refresh_access_token_def refresh_try_def Let_def send_def raise_for_status_def
        response_json_def except_RequestException_def dict_get_def)
next
  case False
  then have v: "map_of d ''refresh_token'' = None"
    by (auto simp: keys_map_of)
  show ?thesis
    using assms False v
    by (simp add: refresh_access_token_def refresh_try_def Let_def send_def raise_for_status_def
        response_json_def except_RequestException_def dict_get_def)
qed

lemma refresh_turned_down_result:
  assumes "refresh_turned_down c (replies w)"
  obtains w' where "refresh_access_token c w = (Inr False, c, w')"
    and "count_sent GET w' = count_sent GET w"
proof -
  obtain r c' w' where res: "refresh_access_token c w = (r, c', w')"
    by (cases "refresh_access_token c w")
  from assms have "fst (refresh_access_token c w) = Inr False"
    by (simp add: refresh_False_iff)
  with res have r: "r = Inr False" by simp
  have "c' = c"
    using res r
    unfolding refresh_access_token_def refresh_try_def except_RequestException_def Let_def
    by (auto split: if_splits prod.splits sum.splits bool.splits
        dest: py_get_Inl py_in_Inl py_getitem_Inl)
  moreover have "count_sent GET w' = count_sent GET w"
    using count_sent_refresh [OF res] by simp
  ultimately show thesis
    using that res r by simp
qed

lemma history_turned_down:
  assumes "truthy (access_token c)"
    and "replies w = Answer r1 # rest"
    and "status_code r1 = 401"
    and "refresh_turned_down c rest"
  shows "case get_price_history rt c symbol period_type period frequency_type frequency w of
           (r, c', w') \<Rightarrow> r = Inr JNull \<and> count_sent GET w' = count_sent GET w + 1"
proof -
  define rq where "rq = \<lparr>meth = GET, url = base_url c @ ''/marketdata/v1/pricehistory'',
      headers = [(''Authorization'', ''Bearer '' @ py_str rt (access_token c))],
      params = [(''symbol'', JStr symbol), (''periodType'', JStr period_type),
                (''period'', JInt period), (''frequencyType'', JStr frequency_type),
                (''frequency'', JInt frequency)],
      form = []\<rparr>"
  define w1 where "w1 = w\<lparr>replies := rest, sent := sent w @ [rq]\<rparr>"
  have snd: "send rq w = (Inr r1, w1)"
    using assms(2) by (simp add: send_def w1_def)
  have c1: "count_sent GET w1 = count_sent GET w + 1"
    by (simp add: count_sent_def w1_def rq_def)
  have "refresh_turned_down c (replies w1)"
    using assms(4) by (simp add: w1_def)
  then obtain w2 where ref: "refresh_access_token c w1 = (Inr False, c, w2)"
    and c2: "count_sent GET w2 = count_sent GET w1"
    by (rule refresh_turned_down_result)
  have "get_price_history rt c symbol period_type period frequency_type frequency w
          = (Inr JNull, c, w2)"
    using assms(1,3) snd ref
    by (simp add: get_price_history_def get_price_history_try_def get_headers_def
        except_RequestException_def rq_def)
  then show ?thesis
    using c1 c2 by simp
qed

lemma checked_json_Inl: "checked_json r = Inl e \<Longrightarrow> is_RequestException e"
  by (auto simp: checked_json_def raise_for_status_def response_json_def
      split: if_splits option.splits)

text \<open>
  The whole run of \<^verbatim>\<open>get_price_history\<close> when the first answer is a 401 and the refresh
  goes through: three requests, the third being the first again under the new token, and
  the third answer decides the result.
\<close>

lemma history_retry:
  assumes "truthy (access_token c)"
    and "replies w = Answer r1 # Answer r2 # Answer r3 # rest"
    and "status_code r1 = 401"
    and "truthy (refresh_token c)"
    and "\<not> (400 \<le> status_code r2 \<and> status_code r2 < 600)"
    and "body r2 = Some (JObj d)"
    and "truthy (dict_get d ''access_token'' JNull)"
  shows "get_price_history rt c symbol period_type period frequency_type frequency w =
          (case checked_json r3 of Inl e \<Rightarrow> Inr JNull | Inr j \<Rightarrow> Inr j,
           c\<lparr>access_token := dict_get d ''access_token'' JNull,
             refresh_token := dict_get d ''refresh_token'' (refresh_token c)\<rparr>,
           w\<lparr>replies := rest,
             sent := sent w @
              [\<lparr>meth = GET, url = base_url c @ ''/marketdata/v1/pricehistory'',
                headers = [(''Authorization'', ''Bearer '' @ py_str rt (access_token c))],
                params = [(''symbol'', JStr symbol), (''periodType'', JStr period_type),
                          (''period'', JInt period), (''frequencyType'', JStr frequency_type),
                          (''frequency'', JInt frequency)],
                form = []\<rparr>,
               \<lparr>meth = POST, url = base_url c @ ''/v1/oauth/token'',
                headers = [(''Content-Type'', ''application/x-www-form-urlencoded'')],
                params = [],
                form = [(''grant_type'', JStr ''refresh_token''),
                        (''refresh_token'', refresh_token c),
                        (''client_id'', JStr (client_id c)),
                        (''client_secret'', JStr (client_secret c))]\<rparr>,
               \<lparr>meth = GET, url = base_url c @ ''/marketdata/v1/pricehistory'',
                headers = [(''Authorization'',
                            ''Bearer '' @ py_str rt (dict_get d ''access_token'' JNull))],
                params = [(''symbol'', JStr symbol), (''periodType'', JStr period_type),
                          (''period'', JInt period), (''frequencyType'', JStr frequency_type),
                          (''frequency'', JInt frequency)],
                form = []\<rparr>]\<rparr>)"
proof -
  define rq where "rq = \<lparr>meth = GET, url = base_url c @ ''/marketdata/v1/pricehistory'',
      headers = [(''Authorization'', ''Bearer '' @ py_str rt (access_token c))],
      params = [(''symbol'', JStr symbol), (''periodType'', JStr period_type),
                (''period'', JInt period), (''frequencyType'', JStr frequency_type),
                (''frequency'', JInt frequency)],
      form = []\<rparr>"
  define w1 where "w1 = w\<lparr>replies := Answer r2 # Answer r3 # rest, sent := sent w @ [rq]\<rparr>"
  have snd: "send rq w = (Inr r1, w1)"
    using assms(2) by (simp add: send_def w1_def)
  have rep1: "replies w1 = Answer r2 # Answer r3 # rest"
    by (simp add: w1_def)
  define c2 where "c2 = c\<lparr>access_token := dict_get d ''access_token'' JNull,
      refresh_token := dict_get d ''refresh_token'' (refresh_token c)\<rparr>"
  define post where "post = \<lparr>meth = POST, url = base_url c @ ''/v1/oauth/token'',
      headers = [(''Content-Type'', ''application/x-www-form-urlencoded'')], params = [],
      form = [(''grant_type'', JStr ''refresh_token''), (''refresh_token'', refresh_token c),
              (''client_id'', JStr (client_id c)), (''client_secret'', JStr (client_secret c))]\<rparr>"
  define w2 where "w2 = w1\<lparr>replies := Answer r3 # rest, sent := sent w1 @ [post]\<rparr>"
  have ref: "refresh_access_token c w1 = (Inr True, c2, w2)"
    using refresh_access_token_True [OF assms(4) rep1 assms(5) assms(6)]
    by (simp add: c2_def w2_def post_def)
  define rq2 where "rq2 = rq\<lparr>headers := [(''Authorization'', ''Bearer '' @ py_str rt (access_token c2))]\<rparr>"
  define w3 where "w3 = w2\<lparr>replies := rest, sent := sent w2 @ [rq2]\<rparr>"
  have snd2: "send rq2 w2 = (Inr r3, w3)"
    by (simp add: send_def w2_def w3_def)
  have tok: "truthy (access_token c2)"
    using assms(7) by (simp add: c2_def)
  have url2: "base_url c2 = base_url c"
    by (simp add: c2_def)
  have "get_price_history rt c symbol period_type period frequency_type frequency w
          = (case checked_json r3 of Inl e \<Rightarrow> Inr JNull | Inr j \<Rightarrow> Inr j, c2, w3)"
    using assms(1,3) tok snd ref snd2
    by (auto simp: get_price_history_def get_price_history_try_def get_headers_def
        except_RequestException_def rq_def rq2_def split: sum.splits dest: checked_json_Inl)
  moreover have "w3 = w\<lparr>replies := rest, sent := sent w @ [rq, post, rq2]\<rparr>"
    by (simp add: w3_def w2_def w1_def)
  ultimately show ?thesis
    by (simp add: c2_def rq_def rq2_def post_def)
qed

lemma bulk_turned_down:
  assumes "truthy (access_token c)"
    and "replies w = Answer r1 # rest"
    and "status_code r1 = 401"
    and "refresh_turned_down c rest"
  shows "case get_quotes_bulk rt c symbols w of
           (r, c', w') \<Rightarrow> r = Inr (JObj []) \<and> count_sent GET w' = count_sent GET w + 1"
proof -
  define rq where "rq = \<lparr>meth = GET,
      url = base_url c @ ''/marketdata/v1/quotes?symbols='' @ join '','' (map upper symbols),
      headers = [(''Authorization'', ''Bearer '' @ py_str rt (access_token c))],
      params = [], form = []\<rparr>"
  define w1 where "w1 = w\<lparr>replies := rest, sent := sent w @ [rq]\<rparr>"
  have snd: "send rq w = (Inr r1, w1)"
    using assms(2) by (simp add: send_def w1_def)
  have c1: "count_sent GET w1 = count_sent GET w + 1"
    by (simp add: count_sent_def w1_def rq_def)
  have "refresh_turned_down c (replies w1)"
    using assms(4) by (simp add: w1_def)
  then obtain w2 where ref: "refresh_access_token c w1 = (Inr False, c, w2)"
    and c2: "count_sent GET w2 = count_sent GET w1"
    by (rule refresh_turned_down_result)
  have "get_quotes_bulk rt c symbols w = (Inr (JObj []), c, w2)"
    using assms(1,3) snd ref
    by (simp add: get_quotes_bulk_def get_quotes_bulk_try_def get_headers_def
        except_RequestException_def rq_def)
  then show ?thesis
    using c1 c2 by simp
qed

lemma quote_turned_down:
  assumes "truthy (access_token c)"
    and "replies w = Answer r1 # rest"
    and "status_code r1 = 401"
    and "refresh_turned_down c rest"
  shows "case get_quote rt c symbol w of
           (r, c', w') \<Rightarrow> r = Inr JNull \<and> count_sent GET w' = count_sent GET w + 1"
proof -
  define rq where "rq = \<lparr>meth = GET,
      url = base_url c @ ''/marketdata/v1/quotes?symbols='' @ upper symbol,
      headers = [(''Authorization'', ''Bearer '' @ py_str rt (access_token c))],
      params = [], form = []\<rparr>"
  define w1 where "w1 = w\<lparr>replies := rest, sent := sent w @ [rq]\<rparr>"
  have snd: "send rq w = (Inr r1, w1)"
    using assms(2) by (simp add: send_def w1_def)
  have c1: "count_sent GET w1 = count_sent GET w + 1"
    by (simp add: count_sent_def w1_def rq_def)
  have "refresh_turned_down c (replies w1)"
    using assms(4) by (simp add: w1_def)
  then obtain w2 where ref: "refresh_access_token c w1 = (Inr False, c, w2)"
    and c2: "count_sent GET w2 = count_sent GET w1"
    by (rule refresh_turned_down_result)
  have "get_quote rt c symbol w = (Inr JNull, c, w2)"
    using assms(1,3) snd ref
    by (simp add: get_quote_def get_quote_try_def get_headers_def
        except_RequestException_def rq_def)
  then show ?thesis
    using c1 c2 by simp
qed

lemma bulk_retry:
  assumes "truthy (access_token c)"
    and "replies w = Answer r1 # Answer r2 # Answer r3 # rest"
    and "status_code r1 = 401"
    and "truthy (refresh_token c)"
    and "\<not> (400 \<le> status_code r2 \<and> status_code r2 < 600)"
    and "body r2 = Some (JObj d)"
    and "truthy (dict_get d ''access_token'' JNull)"
  shows "get_quotes_bulk rt c symbols w =
          (case checked_json r3 of Inl e \<Rightarrow> Inr (JObj []) | Inr j \<Rightarrow> Inr j,
           c\<lparr>access_token := dict_get d ''access_token'' JNull,
             refresh_token := dict_get d ''refresh_token'' (refresh_token c)\<rparr>,
           w\<lparr>replies := rest,
             sent := sent w @
              [\<lparr>meth = GET,
                url = base_url c @ ''/marketdata/v1/quotes?symbols='' @ join '','' (map upper symbols),
                headers = [(''Authorization'', ''Bearer '' @ py_str rt (access_token c))],
                params = [], form = []\<rparr>,
               \<lparr>meth = POST, url = base_url c @ ''/v1/oauth/token'',
                headers = [(''Content-Type'', ''application/x-www-form-urlencoded'')],
                params = [],
                form = [(''grant_type'', JStr ''refresh_token''),
                        (''refresh_token'', refresh_token c),
                        (''client_id'', JStr (client_id c)),
                        (''client_secret'', JStr (client_secret c))]\<rparr>,
               \<lparr>meth = GET,
                url = base_url c @ ''/marketdata/v1/quotes?symbols='' @ join '','' (map upper symbols),
                headers = [(''Authorization'',
                            ''Bearer '' @ py_str rt (dict_get d ''access_token'' JNull))],
                params = [], form = []\<rparr>]\<rparr>)"
proof -
  define rq where "rq = \<lparr>meth = GET,
      url = base_url c @ ''/marketdata/v1/quotes?symbols='' @ join '','' (map upper symbols),
      headers = [(''Authorization'', ''Bearer '' @ py_str rt (access_token c))],
      params = [], form = []\<rparr>"
  define w1 where "w1 = w\<lparr>replies := Answer r2 # Answer r3 # rest, sent := sent w @ [rq]\<rparr>"
  have snd: "send rq w = (Inr r1, w1)"
    using assms(2) by (simp add: send_def w1_def)
  have rep1: "replies w1 = Answer r2 # Answer r3 # rest"
    by (simp add: w1_def)
  define c2 where "c2 = c\<lparr>access_token := dict_get d ''access_token'' JNull,
      refresh_token := dict_get d ''refresh_token'' (refresh_token c)\<rparr>"
  define post where "post = \<lparr>meth = POST, url = base_url c @ ''/v1/oauth/token'',
      headers = [(''Content-Type'', ''application/x-www-form-urlencoded'')], params = [],
      form = [(''grant_type'', JStr ''refresh_token''), (''refresh_token'', refresh_token c),
              (''client_id'', JStr (client_id c)), (''client_secret'', JStr (client_secret c))]\<rparr>"
  define w2 where "w2 = w1\<lparr>replies := Answer r3 # rest, sent := sent w1 @ [post]\<rparr>"
  have ref: "refresh_access_token c w1 = (Inr True, c2, w2)"
    using refresh_access_token_True [OF assms(4) rep1 assms(5) assms(6)]
    by (simp add: c2_def w2_def post_def)
  define rq2 where "rq2 = rq\<lparr>headers := [(''Authorization'', ''Bearer '' @ py_str rt (access_token c2))]\<rparr>"
  define w3 where "w3 = w2\<lparr>replies := rest, sent := sent w2 @ [rq2]\<rparr>"
  have snd2: "send rq2 w2 = (Inr r3, w3)"
    by (simp add: send_def w2_def w3_def)
  have tok: "truthy (access_token c2)"
    using assms(7) by (simp add: c2_def)
  have "get_quotes_bulk rt c symbols w
          = (case checked_json r3 of Inl e \<Rightarrow> Inr (JObj []) | Inr j \<Rightarrow> Inr j, c2, w3)"
    using assms(1,3) tok snd ref snd2
    by (auto simp: get_quotes_bulk_def get_quotes_bulk_try_def get_headers_def
        except_RequestException_def rq_def rq2_def split: sum.splits dest: checked_json_Inl)
  moreover have "w3 = w\<lparr>replies := rest, sent := sent w @ [rq, post, rq2]\<rparr>"
    by (simp add: w3_def w2_def w1_def)
  ultimately show ?thesis
    by (simp add: c2_def rq_def rq2_def post_def)
qed

lemma count_bulk:
  "case get_quotes_bulk rt c symbols w of (r, c', w') \<Rightarrow>
     count_sent POST w' \<le> count_sent POST w + 1 \<and> count_sent GET w' \<le> count_sent GET w + 2"
proof -
  define u where "u = base_url c @ ''/marketdata/v1/quotes?symbols='' @ join '','' (map upper symbols)"
  obtain r0 c0 w0 where t: "get_quotes_bulk_try rt c u w = (r0, c0, w0)"
    by (cases "get_quotes_bulk_try rt c u w")
  obtain r c' w' where g: "get_quotes_bulk rt c symbols w = (r, c', w')"
    by (cases "get_quotes_bulk rt c symbols w")
  from g t have "(c', w') = (c0, w0)"
    using except_state [of "JObj []" "get_quotes_bulk_try rt c u w" r "(c', w')"]
    by (simp add: get_quotes_bulk_def u_def)
  with count_bulk_try [OF t] g show ?thesis by simp
qed

lemma count_history:
  "case get_price_history rt c symbol period_type period frequency_type frequency w of
     (r, c', w') \<Rightarrow>
     count_sent POST w' \<le> count_sent POST w + 1 \<and> count_sent GET w' \<le> count_sent GET w + 2"
proof -
  define u where "u = base_url c @ ''/marketdata/v1/pricehistory''"
  define ps where "ps = [(''symbol'', JStr symbol), (''periodType'', JStr period_type),
      (''period'', JInt period), (''frequencyType'', JStr frequency_type),
      (''frequency'', JInt frequency)]"
  obtain r0 c0 w0 where t: "get_price_history_try rt c u ps w = (r0, c0, w0)"
    by (cases "get_price_history_try rt c u ps w")
  obtain r c' w' where g:
    "get_price_history rt c symbol period_type period frequency_type frequency w = (r, c', w')"
    by (cases "get_price_history rt c symbol period_type period frequency_type frequency w")
  from g t have "(c', w') = (c0, w0)"
    using except_state [of JNull "get_price_history_try rt c u ps w" r "(c', w')"]
    by (simp add: get_price_history_def u_def ps_def)
  with count_history_try [OF t] g show ?thesis by simp
qed

lemma count_quote:
  "case get_quote rt c symbol w of (r, c', w') \<Rightarrow>
     count_sent POST w' \<le> count_sent POST w + 1 \<and> count_sent GET w' \<le> count_sent GET w + 1"
proof -
  define u where "u = base_url c @ ''/marketdata/v1/quotes?symbols='' @ upper symbol"
  obtain r0 c0 w0 where t: "get_quote_try rt c symbol u w = (r0, c0, w0)"
    by (cases "get_quote_try rt c symbol u w")
  obtain r c' w' where g: "get_quote rt c symbol w = (r, c', w')"
    by (cases "get_quote rt c symbol w")
  from g t have "(c', w') = (c0, w0)"
    using except_state [of JNull "get_quote_try rt c symbol u w" r "(c', w')"]
    by (simp add: get_quote_def u_def)
  with count_quote_try [OF t] g show ?thesis by simp
qed

text \<open>When the refresh does not return \<^verbatim>\<open>True\<close> it returns \<^verbatim>\<open>False\<close> or raises
  \<^verbatim>\<open>AttributeError\<close>, and the fetch that asked for it stops there.\<close>

lemma refresh_True_iff:
  "fst (refresh_access_token c w) = Inr True \<longleftrightarrow> refresh_goes_through c (replies w)"
  unfolding refresh_access_token_def refresh_try_def except_RequestException_def Let_def
    refresh_goes_through_def send_def raise_for_status_def response_json_def
  by (auto split: if_splits prod.splits sum.splits bool.splits list.splits reply.splits option.splits
      json.splits dest: py_get_Inl py_in_Inl py_getitem_Inl simp: keys_map_of)

lemma py_get_Inr: "py_get v k dflt = Inr x \<Longrightarrow> \<exists>d. v = JObj d"
  by (cases v) auto

lemma refresh_outcomes:
  "fst (refresh_access_token c w) = Inr True \<or> fst (refresh_access_token c w) = Inr False
   \<or> fst (refresh_access_token c w) = Inl AttributeError"
  unfolding refresh_access_token_def refresh_try_def except_RequestException_def Let_def
    send_def raise_for_status_def response_json_def
  by (auto split: if_splits prod.splits sum.splits bool.splits list.splits reply.splits option.splits
      dest: py_get_Inl dest!: py_get_Inr simp: keys_map_of)

lemma refresh_not_through:
  assumes "\<not> refresh_goes_through c (replies w)"
  obtains r c' w' where "refresh_access_token c w = (r, c', w')"
    and "r = Inr False \<or> r = Inl AttributeError"
    and "count_sent GET w' = count_sent GET w"
proof -
  obtain r c' w' where res: "refresh_access_token c w = (r, c', w')"
    by (cases "refresh_access_token c w")
  from assms have "fst (refresh_access_token c w) \<noteq> Inr True"
    by (simp add: refresh_True_iff)
  with refresh_outcomes [of c w] res have "r = Inr False \<or> r = Inl AttributeError"
    by auto
  moreover have "count_sent GET w' = count_sent GET w"
    using count_sent_refresh [OF res] by simp
  ultimately show thesis
    using that res by blast
qed


lemma quote_no_retry:
  assumes "truthy (access_token c)"
    and "replies w = Answer r1 # rest"
    and "status_code r1 = 401"
    and "\<not> refresh_goes_through c rest"
  shows "case get_quote rt c symbol w of
           (r, c', w') \<Rightarrow> (r = Inr JNull \<or> r = Inl AttributeError)
              \<and> count_sent GET w' = count_sent GET w + 1"
proof -
  define rq where "rq = \<lparr>meth = GET,
      url = base_url c @ ''/marketdata/v1/quotes?symbols='' @ upper symbol,
      headers = [(''Authorization'', ''Bearer '' @ py_str rt (access_token c))],
      params = [], form = []\<rparr>"
  define w1 where "w1 = w\<lparr>replies := rest, sent := sent w @ [rq]\<rparr>"
  have snd: "send rq w = (Inr r1, w1)"
    using assms(2) by (simp add: send_def w1_def)
  have c1: "count_sent GET w1 = count_sent GET w + 1"
    by (simp add: count_sent_def w1_def rq_def)
  have "\<not> refresh_goes_through c (replies w1)"
    using assms(4) by (simp add: w1_def)
  then obtain r0 c2 w2 where ref: "refresh_access_token c w1 = (r0, c2, w2)"
    and out: "r0 = Inr False \<or> r0 = Inl AttributeError"
    and c2: "count_sent GET w2 = count_sent GET w1"
    by (rule refresh_not_through)
  from out show ?thesis
  proof
    assume "r0 = Inr False"
    then have "get_quote rt c symbol w = (Inr JNull, c2, w2)"
      using assms(1,3) snd ref
      by (simp add: get_quote_def get_quote_try_def get_headers_def except_RequestException_def rq_def)
    then show ?thesis using c1 c2 by simp
  next
    assume "r0 = Inl AttributeError"
    then have "get_quote rt c symbol w = (Inl AttributeError, c2, w2)"
      using assms(1,3) snd ref
      by (simp add: get_quote_def get_quote_try_def get_headers_def except_RequestException_def rq_def)
    then show ?thesis using c1 c2 by simp
  qed
qed

lemma bulk_no_retry:
  assumes "truthy (access_token c)"
    and "replies w = Answer r1 # rest"
    and "status_code r1 = 401"
    and "\<not> refresh_goes_through c rest"
  shows "case get_quotes_bulk rt c symbols w of
           (r, c', w') \<Rightarrow> (r = Inr (JObj []) \<or> r = Inl AttributeError)
              \<and> count_sent GET w' = count_sent GET w + 1"
proof -
  define rq where "rq = \<lparr>meth = GET,
      url = base_url c @ ''/marketdata/v1/quotes?symbols='' @ join '','' (map upper symbols),
      headers = [(''Authorization'', ''Bearer '' @ py_str rt (access_token c))],
      params = [], form = []\<rparr>"
  define w1 where "w1 = w\<lparr>replies := rest, sent := sent w @ [rq]\<rparr>"
  have snd: "send rq w = (Inr r1, w1)"
    using assms(2) by (simp add: send_def w1_def)
  have c1: "count_sent GET w1 = count_sent GET w + 1"
    by (simp add: count_sent_def w1_def rq_def)
  have "\<not> refresh_goes_through c (replies w1)"
    using assms(4) by (simp add: w1_def)
  then obtain r0 c2 w2 where ref: "refresh_access_token c w1 = (r0, c2, w2)"
    and out: "r0 = Inr False \<or> r0 = Inl AttributeError"
    and c2: "count_sent GET w2 = count_sent GET w1"
    by (rule refresh_not_through)
  from out show ?thesis
  proof
    assume "r0 = Inr False"
    then have "get_quotes_bulk rt c symbols w = (Inr (JObj []), c2, w2)"
      using assms(1,3) snd ref
      by (simp add: get_quotes_bulk_def get_quotes_bulk_try_def get_headers_def except_RequestException_def rq_def)
    then show ?thesis using c1 c2 by simp
  next
    assume "r0 = Inl AttributeError"
    then have "get_quotes_bulk rt c symbols w = (Inl AttributeError, c2, w2)"
      using assms(1,3) snd ref
      by (simp add: get_quotes_bulk_def get_quotes_bulk_try_def get_headers_def except_RequestException_def rq_def)
    then show ?thesis using c1 c2 by simp
  qed
qed

lemma history_no_retry:
  assumes "truthy (access_token c)"
    and "replies w = Answer r1 # rest"
    and "status_code r1 = 401"
    and "\<not> refresh_goes_through c rest"
  shows "case get_price_history rt c symbol period_type period frequency_type frequency w of
           (r, c', w') \<Rightarrow> (r = Inr JNull \<or> r = Inl AttributeError)
              \<and> count_sent GET w' = count_sent GET w + 1"
proof -
  define rq where "rq = \<lparr>meth = GET, url = base_url c @ ''/marketdata/v1/pricehistory'',
      headers = [(''Authorization'', ''Bearer '' @ py_str rt (access_token c))],
      params = [(''symbol'', JStr symbol), (''periodType'', JStr period_type),
                (''period'', JInt period), (''frequencyType'', JStr frequency_type),
                (''frequency'', JInt frequency)],
      form = []\<rparr>"
  define w1 where "w1 = w\<lparr>replies := rest, sent := sent w @ [rq]\<rparr>"
  have snd: "send rq w = (Inr r1, w1)"
    using assms(2) by (simp add: send_def w1_def)
  have c1: "count_sent GET w1 = count_sent GET w + 1"
    by (simp add: count_sent_def w1_def rq_def)
  have "\<not> refresh_goes_through c (replies w1)"
    using assms(4) by (simp add: w1_def)
  then obtain r0 c2 w2 where ref: "refresh_access_token c w1 = (r0, c2, w2)"
    and out: "r0 = Inr False \<or> r0 = Inl AttributeError"
    and c2: "count_sent GET w2 = count_sent GET w1"
    by (rule refresh_not_through)
  from out show ?thesis
  proof
    assume "r0 = Inr False"
    then have "get_price_history rt c symbol period_type period frequency_type frequency w = (Inr JNull, c2, w2)"
      using assms(1,3) snd ref
      by (simp add: get_price_history_def get_price_history_try_def get_headers_def except_RequestException_def rq_def)
    then show ?thesis using c1 c2 by simp
  next
    assume "r0 = Inl AttributeError"
    then have "get_price_history rt c symbol period_type period frequency_type frequency w = (Inl AttributeError, c2, w2)"
      using assms(1,3) snd ref
      by (simp add: get_price_history_def get_price_history_try_def get_headers_def except_RequestException_def rq_def)
    then show ?thesis using c1 c2 by simp
  qed
qed

subsection \<open>One refresh, one retry\<close>

text \<open>
  C3 (as amended). For \<^verbatim>\<open>get_quote\<close>, \<^verbatim>\<open>get_quotes_bulk\<close> and \<^verbatim>\<open>get_price_history\<close>, whatever the
  client, the arguments and the server do: a call sends at most one token request (POST) and
  at most two GETs. If the first GET is answered 401 and the refresh fails, the call fails
  after exactly one GET: when \<^verbatim>\<open>refresh_access_token\<close> returns \<^verbatim>\<open>False\<close> the call returns its
  failure value (\<^verbatim>\<open>None\<close>, or \<^verbatim>\<open>{}\<close> for the bulk fetch), and in the one other case, the
  refresh raising \<^verbatim>\<open>AttributeError\<close>, the call raises it. If the first GET is answered 401
  and the refresh goes through, \<^verbatim>\<open>get_quotes_bulk\<close> and \<^verbatim>\<open>get_price_history\<close> send exactly two
  GETs and one POST whatever the second answer is, leaving the rest of the server's script
  unread; and when the second answer has a 4xx or 5xx status (a second 401 included) the
  call returns its failure value.
\<close>

theorem fetch_one_refresh_one_retry:
  "(case get_quote rt c symbol w of (r, c', w') \<Rightarrow>
      count_sent POST w' \<le> count_sent POST w + 1 \<and> count_sent GET w' \<le> count_sent GET w + 2)
 \<and> (case get_quotes_bulk rt c symbols w of (r, c', w') \<Rightarrow>
      count_sent POST w' \<le> count_sent POST w + 1 \<and> count_sent GET w' \<le> count_sent GET w + 2)
 \<and> (case get_price_history rt c symbol period_type period frequency_type frequency w of
      (r, c', w') \<Rightarrow>
      count_sent POST w' \<le> count_sent POST w + 1 \<and> count_sent GET w' \<le> count_sent GET w + 2)
 \<and> (truthy (access_token c) \<and> replies w = Answer r1 # rest \<and> status_code r1 = 401
      \<and> refresh_turned_down c rest \<longrightarrow>
      (case get_quote rt c symbol w of (r, c', w') \<Rightarrow>
         r = Inr JNull \<and> count_sent GET w' = count_sent GET w + 1)
    \<and> (case get_quotes_bulk rt c symbols w of (r, c', w') \<Rightarrow>
         r = Inr (JObj []) \<and> count_sent GET w' = count_sent GET w + 1)
    \<and> (case get_price_history rt c symbol period_type period frequency_type frequency w of
         (r, c', w') \<Rightarrow> r = Inr JNull \<and> count_sent GET w' = count_sent GET w + 1))
 \<and> (truthy (access_token c) \<and> replies w = Answer r1 # rest \<and> status_code r1 = 401
      \<and> \<not> refresh_goes_through c rest \<longrightarrow>
      (case get_quote rt c symbol w of (r, c', w') \<Rightarrow>
         (r = Inr JNull \<or> r = Inl AttributeError) \<and> count_sent GET w' = count_sent GET w + 1)
    \<and> (case get_quotes_bulk rt c symbols w of (r, c', w') \<Rightarrow>
         (r = Inr (JObj []) \<or> r = Inl AttributeError)
         \<and> count_sent GET w' = count_sent GET w + 1)
    \<and> (case get_price_history rt c symbol period_type period frequency_type frequency w of
         (r, c', w') \<Rightarrow>
         (r = Inr JNull \<or> r = Inl AttributeError) \<and> count_sent GET w' = count_sent GET w + 1))
 \<and> (truthy (access_token c) \<and> replies w = Answer r1 # Answer r2 # Answer r3 # rest'
      \<and> status_code r1 = 401 \<and> truthy (refresh_token c)
      \<and> \<not> (400 \<le> status_code r2 \<and> status_code r2 < 600) \<and> body r2 = Some (JObj d)
      \<and> truthy (dict_get d ''access_token'' JNull) \<longrightarrow>
      (case get_quotes_bulk rt c symbols w of (r, c', w') \<Rightarrow>
         replies w' = rest'
         \<and> count_sent GET w' = count_sent GET w + 2 \<and> count_sent POST w' = count_sent POST w + 1
         \<and> (400 \<le> status_code r3 \<and> status_code r3 < 600 \<longrightarrow> r = Inr (JObj [])))
    \<and> (case get_price_history rt c symbol period_type period frequency_type frequency w of
         (r, c', w') \<Rightarrow>
         replies w' = rest'
         \<and> count_sent GET w' = count_sent GET w + 2 \<and> count_sent POST w' = count_sent POST w + 1
         \<and> (400 \<le> status_code r3 \<and> status_code r3 < 600 \<longrightarrow> r = Inr JNull)))"
proof (intro conjI impI)
  show "case get_quote rt c symbol w of (r, c', w') \<Rightarrow>
      count_sent POST w' \<le> count_sent POST w + 1 \<and> count_sent GET w' \<le> count_sent GET w + 2"
    using count_quote [where rt = rt and c = c and symbol = symbol and w = w]
    by (auto split: prod.splits)
  show "case get_quotes_bulk rt c symbols w of (r, c', w') \<Rightarrow>
      count_sent POST w' \<le> count_sent POST w + 1 \<and> count_sent GET w' \<le> count_sent GET w + 2"
    by (rule count_bulk)
  show "case get_price_history rt c symbol period_type period frequency_type frequency w of
      (r, c', w') \<Rightarrow>
      count_sent POST w' \<le> count_sent POST w + 1 \<and> count_sent GET w' \<le> count_sent GET w + 2"
    by (rule count_history)
next
  assume h: "truthy (access_token c) \<and> replies w = Answer r1 # rest \<and> status_code r1 = 401
      \<and> refresh_turned_down c rest"
  then have a: "truthy (access_token c)" and b: "replies w = Answer r1 # rest"
    and s: "status_code r1 = 401" and t: "refresh_turned_down c rest"
    by simp_all
  show "case get_quote rt c symbol w of (r, c', w') \<Rightarrow>
         r = Inr JNull \<and> count_sent GET w' = count_sent GET w + 1"
    using a b s t by (rule quote_turned_down)
  show "case get_quotes_bulk rt c symbols w of (r, c', w') \<Rightarrow>
         r = Inr (JObj []) \<and> count_sent GET w' = count_sent GET w + 1"
    using a b s t by (rule bulk_turned_down)
  show "case get_price_history rt c symbol period_type period frequency_type frequency w of
         (r, c', w') \<Rightarrow> r = Inr JNull \<and> count_sent GET w' = count_sent GET w + 1"
    using a b s t by (rule history_turned_down)
next
  assume h: "truthy (access_token c) \<and> replies w = Answer r1 # rest \<and> status_code r1 = 401
      \<and> \<not> refresh_goes_through c rest"
  then have a: "truthy (access_token c)" and b: "replies w = Answer r1 # rest"
    and s: "status_code r1 = 401" and t: "\<not> refresh_goes_through c rest"
    by simp_all
  show "case get_quote rt c symbol w of (r, c', w') \<Rightarrow>
         (r = Inr JNull \<or> r = Inl AttributeError) \<and> count_sent GET w' = count_sent GET w + 1"
    using a b s t by (rule quote_no_retry)
  show "case get_quotes_bulk rt c symbols w of (r, c', w') \<Rightarrow>
         (r = Inr (JObj []) \<or> r = Inl AttributeError)
         \<and> count_sent GET w' = count_sent GET w + 1"
    using a b s t by (rule bulk_no_retry)
  show "case get_price_history rt c symbol period_type period frequency_type frequency w of
         (r, c', w') \<Rightarrow>
         (r = Inr JNull \<or> r = Inl AttributeError) \<and> count_sent GET w' = count_sent GET w + 1"
    using a b s t by (rule history_no_retry)
next
  assume h: "truthy (access_token c) \<and> replies w = Answer r1 # Answer r2 # Answer r3 # rest'
      \<and> status_code r1 = 401 \<and> truthy (refresh_token c)
      \<and> \<not> (400 \<le> status_code r2 \<and> status_code r2 < 600) \<and> body r2 = Some (JObj d)
      \<and> truthy (dict_get d ''access_token'' JNull)"
  then have a: "truthy (access_token c)"
    and b: "replies w = Answer r1 # Answer r2 # Answer r3 # rest'"
    and s: "status_code r1 = 401" and t: "truthy (refresh_token c)"
    and u: "\<not> (400 \<le> status_code r2 \<and> status_code r2 < 600)"
    and v: "body r2 = Some (JObj d)"
    and x: "truthy (dict_get d ''access_token'' JNull)"
    by simp_all
  have err: "400 \<le> status_code r3 \<and> status_code r3 < 600 \<Longrightarrow>
      checked_json r3 = Inl (HTTPError (status_code r3))"
    by (simp add: checked_json_def raise_for_status_def)
  show "case get_quotes_bulk rt c symbols w of (r, c', w') \<Rightarrow>
         replies w' = rest'
         \<and> count_sent GET w' = count_sent GET w + 2 \<and> count_sent POST w' = count_sent POST w + 1
         \<and> (400 \<le> status_code r3 \<and> status_code r3 < 600 \<longrightarrow> r = Inr (JObj []))"
    using err by (simp add: bulk_retry [OF a b s t u v x] count_sent_def)
  show "case get_price_history rt c symbol period_type period frequency_type frequency w of
         (r, c', w') \<Rightarrow>
         replies w' = rest'
         \<and> count_sent GET w' = count_sent GET w + 2 \<and> count_sent POST w' = count_sent POST w + 1
         \<and> (400 \<le> status_code r3 \<and> status_code r3 < 600 \<longrightarrow> r = Inr JNull)"
    using err by (simp add: history_retry [OF a b s t u v x] count_sent_def)
qed

text \<open>
  The bulk fetch against three servers: one answers 401 and rejects the refresh with a 400;
  one answers 401 and answers the refresh with a JSON list; one answers 401, refreshes, and
  answers 401 again.
\<close>

theorem fetch_one_refresh_one_retry_witness:
  "fst (get_quotes_bulk demo_runtime demo_client [''AAPL'']
          (stub [status_only 401, status_only 400])) = Inr (JObj [])
 \<and> count_sent GET (snd (snd (get_quotes_bulk demo_runtime demo_client [''AAPL'']
          (stub [status_only 401, status_only 400])))) = 1
 \<and> (fst (get_quotes_bulk demo_runtime demo_client [''AAPL'']
          (stub [status_only 401, ok (JArr [JStr ''x''])])) = Inr (JObj [])
    \<or> fst (get_quotes_bulk demo_runtime demo_client [''AAPL'']
          (stub [status_only 401, ok (JArr [JStr ''x''])])) = Inl AttributeError)
 \<and> count_sent GET (snd (snd (get_quotes_bulk demo_runtime demo_client [''AAPL'']
          (stub [status_only 401, ok (JArr [JStr ''x''])])))) = 1
 \<and> fst (get_quotes_bulk demo_runtime demo_client [''AAPL'']
          (stub [status_only 401, ok (JObj [(''access_token'', JStr ''new'')]),
                 status_only 401])) = Inr (JObj [])
 \<and> count_sent GET (snd (snd (get_quotes_bulk demo_runtime demo_client [''AAPL'']
          (stub [status_only 401, ok (JObj [(''access_token'', JStr ''new'')]),
                 status_only 401])))) = 2
 \<and> count_sent POST (snd (snd (get_quotes_bulk demo_runtime demo_client [''AAPL'']
          (stub [status_only 401, ok (JObj [(''access_token'', JStr ''new'')]),
                 status_only 401])))) = 1"
proof -
  have start: "count_sent GET (stub rs) = 0" "count_sent POST (stub rs) = 0" for rs
    by (simp_all add: count_sent_def stub_def)
  have down: "truthy (access_token demo_client)
      \<and> replies (stub [status_only 401, status_only 400])
          = Answer \<lparr>status_code = 401, body = None\<rparr> # [status_only 400]
      \<and> status_code \<lparr>status_code = 401, body = None\<rparr> = 401
      \<and> refresh_turned_down demo_client [status_only 400]"
    by (simp add: demo_client_def stub_def status_only_def refresh_turned_down_def)
  have raised: "truthy (access_token demo_client)
      \<and> replies (stub [status_only 401, ok (JArr [JStr ''x''])])
          = Answer \<lparr>status_code = 401, body = None\<rparr> # [ok (JArr [JStr ''x''])]
      \<and> status_code \<lparr>status_code = 401, body = None\<rparr> = 401
      \<and> \<not> refresh_goes_through demo_client [ok (JArr [JStr ''x''])]"
    by (simp add: demo_client_def stub_def status_only_def ok_def refresh_goes_through_def)
  have again: "truthy (access_token demo_client)
      \<and> replies (stub [status_only 401, ok (JObj [(''access_token'', JStr ''new'')]),
                       status_only 401])
          = Answer \<lparr>status_code = 401, body = None\<rparr>
            # Answer \<lparr>status_code = 200, body = Some (JObj [(''access_token'', JStr ''new'')])\<rparr>
            # Answer \<lparr>status_code = 401, body = None\<rparr> # []
      \<and> status_code \<lparr>status_code = 401, body = None\<rparr> = 401
      \<and> truthy (refresh_token demo_client)
      \<and> \<not> (400 \<le> status_code \<lparr>status_code = 200,
                   body = Some (JObj [(''access_token'', JStr ''new'')])\<rparr>
           \<and> status_code \<lparr>status_code = 200,
                   body = Some (JObj [(''access_token'', JStr ''new'')])\<rparr> < 600)
      \<and> body \<lparr>status_code = 200, body = Some (JObj [(''access_token'', JStr ''new'')])\<rparr>
          = Some (JObj [(''access_token'', JStr ''new'')])
      \<and> truthy (dict_get [(''access_token'', JStr ''new'')] ''access_token'' JNull)
      \<and> 400 \<le> status_code \<lparr>status_code = 401, body = None\<rparr>
      \<and> status_code \<lparr>status_code = 401, body = None\<rparr> < 600"
    by (simp add: demo_client_def stub_def status_only_def ok_def dict_get_def)
  show ?thesis
    using down raised again start
      fetch_one_refresh_one_retry [where rt = demo_runtime and c = demo_client
        and symbols = "[''AAPL'']" and w = "stub [status_only 401, status_only 400]"
        and ?r1.0 = "\<lparr>status_code = 401, body = None\<rparr>" and rest = "[status_only 400]"]
      fetch_one_refresh_one_retry [where rt = demo_runtime and c = demo_client
        and symbols = "[''AAPL'']" and w = "stub [status_only 401, ok (JArr [JStr ''x''])]"
        and ?r1.0 = "\<lparr>status_code = 401, body = None\<rparr>"
        and rest = "[ok (JArr [JStr ''x''])]"]
      fetch_one_refresh_one_retry [where rt = demo_runtime and c = demo_client
        and symbols = "[''AAPL'']"
        and w = "stub [status_only 401, ok (JObj [(''access_token'', JStr ''new'')]),
                       status_only 401]"
        and ?r1.0 = "\<lparr>status_code = 401, body = None\<rparr>"
        and ?r2.0 = "\<lparr>status_code = 200, body = Some (JObj [(''access_token'', JStr ''new'')])\<rparr>"
        and ?r3.0 = "\<lparr>status_code = 401, body = None\<rparr>"
        and rest' = "[]" and d = "[(''access_token'', JStr ''new'')]"]
    by (simp add: case_prod_unfold)
qed

text \<open>
  The claim as first stated lets every status outside 2xx on the second attempt fail the
  call. \<^verbatim>\<open>raise_for_status\<close> passes a 300: with a 401, a refresh and then a 300 that carries
  JSON, the bulk fetch returns that JSON.
\<close>

theorem get_quotes_bulk_retry_status_300_counterexample:
  "fst (get_quotes_bulk demo_runtime demo_client [''AAPL'']
          (stub [status_only 401, ok (JObj [(''access_token'', JStr ''new'')]),
                 Answer \<lparr>status_code = 300, body = Some (JObj [(''AAPL'', aapl_quote)])\<rparr>]))
     = Inr (JObj [(''AAPL'', aapl_quote)])
 \<and> fst (get_quotes_bulk demo_runtime demo_client [''AAPL'']
          (stub [status_only 401, ok (JObj [(''access_token'', JStr ''new'')]),
                 Answer \<lparr>status_code = 300, body = Some (JObj [(''AAPL'', aapl_quote)])\<rparr>]))
     \<noteq> Inr (JObj [])"
  by code_simp

text \<open>The second server of the examples above makes the refresh raise.\<close>

lemma get_quotes_bulk_refresh_raises:
  "fst (get_quotes_bulk demo_runtime demo_client [''AAPL'']
          (stub [status_only 401, ok (JArr [JStr ''x''])])) = Inl AttributeError"
  by code_simp

subsection \<open>Refresh and retry on a 401\<close>

text \<open>
  C1. \<^verbatim>\<open>get_quote("AAPL")\<close> against a server that answers 401, accepts the refresh and
  would answer the retry with the quote: the call raises \<^verbatim>\<open>NameError\<close> after one GET and
  one POST; the new token is stored, the retry is never sent and the third answer is never
  read.
\<close>

theorem get_quote_retry_raises_NameError:
  "(case get_quote demo_runtime demo_client ''AAPL''
            (stub [status_only 401, ok (JObj [(''access_token'', JStr ''new'')]),
                   ok (JObj [(''AAPL'', aapl_quote)])]) of
       (r, c, w) \<Rightarrow> r = Inl (NameError ''params'') \<and> map meth (sent w) = [GET, POST]
          \<and> replies w = [ok (JObj [(''AAPL'', aapl_quote)])] \<and> access_token c = JStr ''new'')"
  by code_simp

text \<open>
  \<^verbatim>\<open>get_price_history\<close> in the same situation does what the claim says: one POST, two GETs,
  the second under the new token, and the payload of the 2xx answer is returned.
\<close>

lemma history_retry_returns_payload:
  assumes "truthy (access_token c)"
    and "replies w = Answer r1 # Answer r2 # Answer r3 # rest"
    and "status_code r1 = 401"
    and "truthy (refresh_token c)"
    and "\<not> (400 \<le> status_code r2 \<and> status_code r2 < 600)"
    and "body r2 = Some (JObj d)"
    and "truthy (dict_get d ''access_token'' JNull)"
    and "200 \<le> status_code r3" and "status_code r3 < 300"
    and "body r3 = Some payload"
  shows "case get_price_history rt c symbol period_type period frequency_type frequency w of
           (r, c', w') \<Rightarrow> r = Inr payload \<and> replies w' = rest
              \<and> count_sent POST w' = count_sent POST w + 1
              \<and> count_sent GET w' = count_sent GET w + 2
              \<and> map_of (headers (last (sent w'))) ''Authorization''
                  = Some (''Bearer '' @ py_str rt (access_token c'))"
proof -
  have "checked_json r3 = Inr payload"
    using assms(8-10) by (simp add: checked_json_def raise_for_status_def response_json_def)
  then show ?thesis
    by (simp add: history_retry [OF assms(1-7)] count_sent_def)
qed

subsection \<open>Rewriting the .env file\<close>

lemma readlines_universal_newlines:
  "readlines (''A=1'' @ [CHR 0x0D, CHR 0x0A] @ ''B=2'' @ [CHR 0x0D] @ ''C=3'')
     = [''A=1'' @ [CHR 0x0A], ''B=2'' @ [CHR 0x0A], ''C=3'']"
  by code_simp

text \<open>
  When the token response has an access token, the loop of refresh_token.py writes what
  \<open>write_tokens\<close> writes, the refresh token being the one of the response or, failing
  that, the one the script started with.
\<close>

lemma rewrite_refreshed_write_tokens:
  assumes "map_of d ''access_token'' = Some a"
  shows "rewrite_refreshed rt (JObj d) R ls out =
          (Inr (), out @ concat (write_tokens (py_str rt a)
                                   (py_str rt (dict_get d ''refresh_token'' (JStr R))) ls))"
  using assms by (induction ls arbitrary: out) simp_all

lemma write_tokens_length: "length (write_tokens a r ls) = length ls"
  by (induction ls) simp_all

lemma write_tokens_nth:
  "i < length ls \<Longrightarrow>
   write_tokens a r ls ! i =
     (if prefix ''SCHWAB_ACCESS_TOKEN='' (ls ! i) then ''SCHWAB_ACCESS_TOKEN='' @ a @ [CHR 0x0A]
      else if prefix ''SCHWAB_REFRESH_TOKEN='' (ls ! i) then ''SCHWAB_REFRESH_TOKEN='' @ r @ [CHR 0x0A]
      else ls ! i)"
proof (induction ls arbitrary: i)
  case Nil
  then show ?case by simp
next
  case (Cons l ls)
  then show ?case by (cases i) simp_all
qed

lemma write_tokens_others:
  "filter (\<lambda>l. \<not> prefix ''SCHWAB_ACCESS_TOKEN='' l \<and> \<not> prefix ''SCHWAB_REFRESH_TOKEN='' l)
      (write_tokens a r ls)
   = filter (\<lambda>l. \<not> prefix ''SCHWAB_ACCESS_TOKEN='' l \<and> \<not> prefix ''SCHWAB_REFRESH_TOKEN='' l) ls"
  by (induction ls) simp_all

lemma refresh_script_rewrites:
  assumes "getenv ''SCHWAB_CLIENT_ID'' = Some cid" and "cid \<noteq> []"
    and "getenv ''SCHWAB_CLIENT_SECRET'' = Some secret" and "secret \<noteq> []"
    and "getenv ''SCHWAB_REFRESH_TOKEN'' = Some rtok" and "rtok \<noteq> []"
    and "replies w = Answer resp # rest"
    and "status_code resp = 200"
    and "body resp = Some (JObj d)"
    and "map_of d ''access_token'' = Some a"
    and "stdin w = answer # typed"
    and "lower (strip answer) = ''y''"
    and "env_file w = Some content"
  shows "refresh_token_script rt getenv w =
          (0, w\<lparr>replies := rest,
                sent := sent w @
                  [\<lparr>meth = POST, url = ''https://api.schwabapi.com/v1/oauth/token'',
                    headers = [(''Authorization'', basic_auth (cid @ '':'' @ secret)),
                               (''Content-Type'', ''application/x-www-form-urlencoded'')],
                    params = [],
                    form = [(''grant_type'', JStr ''refresh_token''),
                            (''refresh_token'', JStr rtok)]\<rparr>],
                stdin := typed,
                env_file := Some (concat (write_tokens (py_str rt a)
                    (py_str rt (dict_get d ''refresh_token'' (JStr rtok))) (readlines content)))\<rparr>)"
  using assms
  by (simp add: refresh_token_script_def refresh_script_try_def send_def response_json_def
      input_def rewrite_refreshed_write_tokens)


subsection \<open>Token rotation is optional\<close>

text \<open>
  C5. When the body of the token response is a dict without "refresh_token": a call of
  \<^verbatim>\<open>refresh_access_token\<close> that returns \<^verbatim>\<open>True\<close> leaves the client's refresh token as it was;
  and refresh_token.py, told to update the file, writes on every \<^verbatim>\<open>SCHWAB_REFRESH_TOKEN=\<close>
  line the refresh token it read from the environment at start.
\<close>

theorem refresh_keeps_omitted_refresh_token:
  "(replies w = Answer resp # rest \<and> body resp = Some (JObj d) \<and> ''refresh_token'' \<notin> keys d
      \<and> refresh_access_token c w = (Inr True, c', w')
    \<longrightarrow> refresh_token c' = refresh_token c)
 \<and> (getenv ''SCHWAB_CLIENT_ID'' = Some cid \<and> cid \<noteq> []
      \<and> getenv ''SCHWAB_CLIENT_SECRET'' = Some secret \<and> secret \<noteq> []
      \<and> getenv ''SCHWAB_REFRESH_TOKEN'' = Some rtok \<and> rtok \<noteq> []
      \<and> replies ws = Answer resp' # rest' \<and> status_code resp' = 200
      \<and> body resp' = Some (JObj d') \<and> map_of d' ''access_token'' = Some a
      \<and> ''refresh_token'' \<notin> keys d'
      \<and> stdin ws = answer # typed \<and> lower (strip answer) = ''y''
      \<and> env_file ws = Some content
    \<longrightarrow> env_file (snd (refresh_token_script rt getenv ws))
          = Some (concat (write_tokens (py_str rt a) rtok (readlines content))))"
proof (intro conjI impI)
  assume h: "replies w = Answer resp # rest \<and> body resp = Some (JObj d)
      \<and> ''refresh_token'' \<notin> keys d \<and> refresh_access_token c w = (Inr True, c', w')"
  then have absent: "map_of d ''refresh_token'' = None"
    by (simp add: keys_map_of)
  from h have t: "truthy (refresh_token c)"
    by (auto simp: refresh_access_token_def split: if_splits)
  from h t have s: "\<not> (400 \<le> status_code resp \<and> status_code resp < 600)"
    by (auto simp: refresh_access_token_def refresh_try_def send_def raise_for_status_def
        except_RequestException_def)
  from h have r: "replies w = Answer resp # rest" and b: "body resp = Some (JObj d)"
    by simp_all
  from refresh_access_token_True [OF t r s b] h absent
  show "refresh_token c' = refresh_token c"
    by (auto simp: dict_get_def)
next
  assume h: "getenv ''SCHWAB_CLIENT_ID'' = Some cid \<and> cid \<noteq> []
      \<and> getenv ''SCHWAB_CLIENT_SECRET'' = Some secret \<and> secret \<noteq> []
      \<and> getenv ''SCHWAB_REFRESH_TOKEN'' = Some rtok \<and> rtok \<noteq> []
      \<and> replies ws = Answer resp' # rest' \<and> status_code resp' = 200
      \<and> body resp' = Some (JObj d') \<and> map_of d' ''access_token'' = Some a
      \<and> ''refresh_token'' \<notin> keys d'
      \<and> stdin ws = answer # typed \<and> lower (strip answer) = ''y''
      \<and> env_file ws = Some content"
  then have absent: "dict_get d' ''refresh_token'' (JStr rtok) = JStr rtok"
    by (simp add: keys_map_of dict_get_def)
  have run: "refresh_token_script rt getenv ws =
          (0, ws\<lparr>replies := rest',
                sent := sent ws @
                  [\<lparr>meth = POST, url = ''https://api.schwabapi.com/v1/oauth/token'',
                    headers = [(''Authorization'', basic_auth (cid @ '':'' @ secret)),
                               (''Content-Type'', ''application/x-www-form-urlencoded'')],
                    params = [],
                    form = [(''grant_type'', JStr ''refresh_token''),
                            (''refresh_token'', JStr rtok)]\<rparr>],
                stdin := typed,
                env_file := Some (concat (write_tokens (py_str rt a)
                    (py_str rt (dict_get d' ''refresh_token'' (JStr rtok))) (readlines content)))\<rparr>)"
    by (insert h, elim conjE, (rule refresh_script_rewrites; assumption))
  show "env_file (snd (refresh_token_script rt getenv ws))
          = Some (concat (write_tokens (py_str rt a) rtok (readlines content)))"
    by (simp add: run absent)
qed

text \<open>A refresh answered with \<^verbatim>\<open>{"access_token": "new"}\<close>, by the client and by the script.\<close>

theorem refresh_keeps_omitted_refresh_token_witness:
  "refresh_token (fst (snd (refresh_access_token demo_client
       (stub [ok (JObj [(''access_token'', JStr ''new'')])])))) = JStr ''r0''
 \<and> env_file (snd (refresh_token_script demo_runtime demo_getenv
       (demo_desk [ok (JObj [(''access_token'', JStr ''new'')])])))
     = Some (''SCHWAB_ACCESS_TOKEN=new'' @ [CHR 0x0A] @ ''SCHWAB_REFRESH_TOKEN=r0'' @ [CHR 0x0A]
              @ ''OTHER=1'' @ [CHR 0x0A])"
proof -
  define logged where "logged = \<lparr>replies = [],
      sent = [\<lparr>meth = POST, url = ''https://api.schwabapi.com/v1/oauth/token'',
               headers = [(''Content-Type'', ''application/x-www-form-urlencoded'')],
               params = [],
               form = [(''grant_type'', JStr ''refresh_token''), (''refresh_token'', JStr ''r0''),
                       (''client_id'', JStr ''id''), (''client_secret'', JStr ''secret'')]\<rparr>],
      stdin = [], env_file = None\<rparr>"
  have run: "refresh_access_token demo_client (stub [ok (JObj [(''access_token'', JStr ''new'')])])
      = (Inr True, demo_client\<lparr>access_token := JStr ''new''\<rparr>, logged)"
    unfolding logged_def by code_simp
  have hyp1: "replies (stub [ok (JObj [(''access_token'', JStr ''new'')])])
        = Answer \<lparr>status_code = 200, body = Some (JObj [(''access_token'', JStr ''new'')])\<rparr> # []
      \<and> body \<lparr>status_code = 200, body = Some (JObj [(''access_token'', JStr ''new'')])\<rparr>
          = Some (JObj [(''access_token'', JStr ''new'')])
      \<and> ''refresh_token'' \<notin> keys [(''access_token'', JStr ''new'')]"
    by (simp add: stub_def ok_def keys_def)
  have hyp2: "demo_getenv ''SCHWAB_CLIENT_ID'' = Some ''id'' \<and> ''id'' \<noteq> []
      \<and> demo_getenv ''SCHWAB_CLIENT_SECRET'' = Some ''secret'' \<and> ''secret'' \<noteq> []
      \<and> demo_getenv ''SCHWAB_REFRESH_TOKEN'' = Some ''r0'' \<and> ''r0'' \<noteq> []
      \<and> replies (demo_desk [ok (JObj [(''access_token'', JStr ''new'')])])
          = Answer \<lparr>status_code = 200, body = Some (JObj [(''access_token'', JStr ''new'')])\<rparr> # []
      \<and> status_code \<lparr>status_code = 200, body = Some (JObj [(''access_token'', JStr ''new'')])\<rparr> = 200
      \<and> map_of [(''access_token'', JStr ''new'')] ''access_token'' = Some (JStr ''new'')
      \<and> stdin (demo_desk [ok (JObj [(''access_token'', JStr ''new'')])]) = ''y'' # []
      \<and> lower (strip ''y'') = ''y''
      \<and> env_file (demo_desk [ok (JObj [(''access_token'', JStr ''new'')])]) = Some demo_env"
    by code_simp
  have written: "concat (write_tokens (py_str demo_runtime (JStr ''new'')) ''r0'' (readlines demo_env))
      = ''SCHWAB_ACCESS_TOKEN=new'' @ [CHR 0x0A] @ ''SCHWAB_REFRESH_TOKEN=r0'' @ [CHR 0x0A]
              @ ''OTHER=1'' @ [CHR 0x0A]"
    by code_simp
  show ?thesis
    using run hyp1 hyp2 written
      refresh_keeps_omitted_refresh_token [where w = "stub [ok (JObj [(''access_token'', JStr ''new'')])]"
        and resp = "\<lparr>status_code = 200, body = Some (JObj [(''access_token'', JStr ''new'')])\<rparr>"
        and rest = "[]" and d = "[(''access_token'', JStr ''new'')]" and c = demo_client
        and c' = "demo_client\<lparr>access_token := JStr ''new''\<rparr>"
        and w' = logged
        and getenv = demo_getenv and cid = "''id''" and secret = "''secret''" and rtok = "''r0''"
        and ws = "demo_desk [ok (JObj [(''access_token'', JStr ''new'')])]"
        and resp' = "\<lparr>status_code = 200, body = Some (JObj [(''access_token'', JStr ''new'')])\<rparr>"
        and rest' = "[]" and d' = "[(''access_token'', JStr ''new'')]" and a = "JStr ''new''"
        and answer = "''y''" and typed = "[]" and content = demo_env and rt = demo_runtime]
    by (simp add: demo_client_def)
qed

subsection \<open>Only the token lines change\<close>

text \<open>
  C6. With the \<^verbatim>\<open>.env\<close> file read as a list of lines, \<^verbatim>\<open>update_env_file\<close> and the rewrite in
  refresh_token.py write one piece per line, in the order of the lines: a line that begins
  with \<^verbatim>\<open>SCHWAB_ACCESS_TOKEN=\<close> or \<^verbatim>\<open>SCHWAB_REFRESH_TOKEN=\<close> is replaced by that key with the new
  value, and every other line is written back as it was read.
\<close>

theorem env_rewrite_touches_only_token_lines:
  "(env_file w = Some content \<longrightarrow>
      update_env_file rt access refresh w =
        (Inr (), w\<lparr>env_file := Some (concat (write_tokens (py_str rt access) (py_str rt refresh)
                                                (readlines content)))\<rparr>))
 \<and> (getenv ''SCHWAB_CLIENT_ID'' = Some cid \<and> cid \<noteq> []
      \<and> getenv ''SCHWAB_CLIENT_SECRET'' = Some secret \<and> secret \<noteq> []
      \<and> getenv ''SCHWAB_REFRESH_TOKEN'' = Some rtok \<and> rtok \<noteq> []
      \<and> replies ws = Answer resp # rest \<and> status_code resp = 200
      \<and> body resp = Some (JObj d) \<and> map_of d ''access_token'' = Some a
      \<and> stdin ws = answer # typed \<and> lower (strip answer) = ''y''
      \<and> env_file ws = Some content'
    \<longrightarrow> env_file (snd (refresh_token_script rt getenv ws))
          = Some (concat (write_tokens (py_str rt a)
                            (py_str rt (dict_get d ''refresh_token'' (JStr rtok)))
                            (readlines content'))))
 \<and> length (write_tokens x y ls) = length ls
 \<and> (\<forall>i<length ls.
        write_tokens x y ls ! i =
          (if prefix ''SCHWAB_ACCESS_TOKEN='' (ls ! i) then ''SCHWAB_ACCESS_TOKEN='' @ x @ [CHR 0x0A]
           else if prefix ''SCHWAB_REFRESH_TOKEN='' (ls ! i)
             then ''SCHWAB_REFRESH_TOKEN='' @ y @ [CHR 0x0A]
           else ls ! i))
 \<and> filter (\<lambda>l. \<not> prefix ''SCHWAB_ACCESS_TOKEN='' l \<and> \<not> prefix ''SCHWAB_REFRESH_TOKEN='' l)
        (write_tokens x y ls)
    = filter (\<lambda>l. \<not> prefix ''SCHWAB_ACCESS_TOKEN='' l \<and> \<not> prefix ''SCHWAB_REFRESH_TOKEN='' l) ls"
proof (intro conjI impI allI)
  assume "env_file w = Some content"
  then show "update_env_file rt access refresh w =
        (Inr (), w\<lparr>env_file := Some (concat (write_tokens (py_str rt access) (py_str rt refresh)
                                                (readlines content)))\<rparr>)"
    by (simp add: update_env_file_def)
next
  assume h: "getenv ''SCHWAB_CLIENT_ID'' = Some cid \<and> cid \<noteq> []
      \<and> getenv ''SCHWAB_CLIENT_SECRET'' = Some secret \<and> secret \<noteq> []
      \<and> getenv ''SCHWAB_REFRESH_TOKEN'' = Some rtok \<and> rtok \<noteq> []
      \<and> replies ws = Answer resp # rest \<and> status_code resp = 200
      \<and> body resp = Some (JObj d) \<and> map_of d ''access_token'' = Some a
      \<and> stdin ws = answer # typed \<and> lower (strip answer) = ''y''
      \<and> env_file ws = Some content'"
  have run: "refresh_token_script rt getenv ws =
          (0, ws\<lparr>replies := rest,
                sent := sent ws @
                  [\<lparr>meth = POST, url = ''https://api.schwabapi.com/v1/oauth/token'',
                    headers = [(''Authorization'', basic_auth (cid @ '':'' @ secret)),
                               (''Content-Type'', ''application/x-www-form-urlencoded'')],
                    params = [],
                    form = [(''grant_type'', JStr ''refresh_token''),
                            (''refresh_token'', JStr rtok)]\<rparr>],
                stdin := typed,
                env_file := Some (concat (write_tokens (py_str rt a)
                    (py_str rt (dict_get d ''refresh_token'' (JStr rtok))) (readlines content')))\<rparr>)"
    by (insert h, elim conjE, (rule refresh_script_rewrites; assumption))
  show "env_file (snd (refresh_token_script rt getenv ws))
          = Some (concat (write_tokens (py_str rt a)
                            (py_str rt (dict_get d ''refresh_token'' (JStr rtok)))
                            (readlines content')))"
    by (simp add: run)
next
  show "length (write_tokens x y ls) = length ls"
    by (rule write_tokens_length)
next
  fix i assume "i < length ls"
  then show "write_tokens x y ls ! i =
          (if prefix ''SCHWAB_ACCESS_TOKEN='' (ls ! i) then ''SCHWAB_ACCESS_TOKEN='' @ x @ [CHR 0x0A]
           else if prefix ''SCHWAB_REFRESH_TOKEN='' (ls ! i)
             then ''SCHWAB_REFRESH_TOKEN='' @ y @ [CHR 0x0A]
           else ls ! i)"
    by (rule write_tokens_nth)
next
  show "filter (\<lambda>l. \<not> prefix ''SCHWAB_ACCESS_TOKEN='' l \<and> \<not> prefix ''SCHWAB_REFRESH_TOKEN='' l)
        (write_tokens x y ls)
    = filter (\<lambda>l. \<not> prefix ''SCHWAB_ACCESS_TOKEN='' l \<and> \<not> prefix ''SCHWAB_REFRESH_TOKEN='' l) ls"
    by (rule write_tokens_others)
qed

text \<open>Both rewrites on a file of two token lines and one other line.\<close>

theorem env_rewrite_touches_only_token_lines_witness:
  "update_env_file demo_runtime (JStr ''new'') (JStr ''r1'') (demo_desk []) =
     (Inr (), \<lparr>replies = [], sent = [], stdin = [''y''],
               env_file = Some (''SCHWAB_ACCESS_TOKEN=new'' @ [CHR 0x0A]
                  @ ''SCHWAB_REFRESH_TOKEN=r1'' @ [CHR 0x0A] @ ''OTHER=1'' @ [CHR 0x0A])\<rparr>)
 \<and> env_file (snd (refresh_token_script demo_runtime demo_getenv
       (demo_desk [ok (JObj [(''access_token'', JStr ''new''), (''refresh_token'', JStr ''r1'')])])))
     = Some (''SCHWAB_ACCESS_TOKEN=new'' @ [CHR 0x0A] @ ''SCHWAB_REFRESH_TOKEN=r1'' @ [CHR 0x0A]
              @ ''OTHER=1'' @ [CHR 0x0A])
 \<and> write_tokens ''new'' ''r1'' (readlines demo_env) ! 2 = ''OTHER=1'' @ [CHR 0x0A]"
proof -
  have lines: "readlines demo_env = [''SCHWAB_ACCESS_TOKEN=old'' @ [CHR 0x0A],
      ''SCHWAB_REFRESH_TOKEN=r0'' @ [CHR 0x0A], ''OTHER=1'' @ [CHR 0x0A]]"
    by code_simp
  have hyp1: "env_file (demo_desk []) = Some demo_env"
    by (simp add: demo_desk_def)
  have hyp2: "demo_getenv ''SCHWAB_CLIENT_ID'' = Some ''id'' \<and> ''id'' \<noteq> []
      \<and> demo_getenv ''SCHWAB_CLIENT_SECRET'' = Some ''secret'' \<and> ''secret'' \<noteq> []
      \<and> demo_getenv ''SCHWAB_REFRESH_TOKEN'' = Some ''r0'' \<and> ''r0'' \<noteq> []
      \<and> replies (demo_desk [ok (JObj [(''access_token'', JStr ''new''),
                                         (''refresh_token'', JStr ''r1'')])])
          = Answer \<lparr>status_code = 200, body = Some (JObj [(''access_token'', JStr ''new''),
                                         (''refresh_token'', JStr ''r1'')])\<rparr> # []
      \<and> status_code \<lparr>status_code = 200, body = Some (JObj [(''access_token'', JStr ''new''),
                                         (''refresh_token'', JStr ''r1'')])\<rparr> = 200
      \<and> body \<lparr>status_code = 200, body = Some (JObj [(''access_token'', JStr ''new''),
                                         (''refresh_token'', JStr ''r1'')])\<rparr>
          = Some (JObj [(''access_token'', JStr ''new''), (''refresh_token'', JStr ''r1'')])
      \<and> map_of [(''access_token'', JStr ''new''), (''refresh_token'', JStr ''r1'')] ''access_token''
          = Some (JStr ''new'')
      \<and> stdin (demo_desk [ok (JObj [(''access_token'', JStr ''new''),
                                       (''refresh_token'', JStr ''r1'')])]) = ''y'' # []
      \<and> lower (strip ''y'') = ''y''
      \<and> env_file (demo_desk [ok (JObj [(''access_token'', JStr ''new''),
                                          (''refresh_token'', JStr ''r1'')])]) = Some demo_env"
    by code_simp
  have hyp3: "(2::nat) < length (readlines demo_env)"
    by (simp add: lines)
  have rot: "py_str demo_runtime (dict_get [(''access_token'', JStr ''new''),
      (''refresh_token'', JStr ''r1'')] ''refresh_token'' (JStr ''r0'')) = ''r1''"
    by code_simp
  have written: "concat (write_tokens ''new'' ''r1'' (readlines demo_env))
      = ''SCHWAB_ACCESS_TOKEN=new'' @ [CHR 0x0A] @ ''SCHWAB_REFRESH_TOKEN=r1'' @ [CHR 0x0A]
              @ ''OTHER=1'' @ [CHR 0x0A]"
    by code_simp
  have third: "readlines demo_env ! 2 = ''OTHER=1'' @ [CHR 0x0A]"
    by (simp add: lines)
  have plain: "\<not> prefix ''SCHWAB_ACCESS_TOKEN='' (''OTHER=1'' @ [CHR 0x0A])"
    "\<not> prefix ''SCHWAB_REFRESH_TOKEN='' (''OTHER=1'' @ [CHR 0x0A])"
    by simp_all
  note inst = env_rewrite_touches_only_token_lines [where w = "demo_desk []" and content = demo_env
        and rt = demo_runtime and access = "JStr ''new''" and refresh = "JStr ''r1''"
        and getenv = demo_getenv and cid = "''id''" and secret = "''secret''" and rtok = "''r0''"
        and ws = "demo_desk [ok (JObj [(''access_token'', JStr ''new''),
                                       (''refresh_token'', JStr ''r1'')])]"
        and resp = "\<lparr>status_code = 200, body = Some (JObj [(''access_token'', JStr ''new''),
                                         (''refresh_token'', JStr ''r1'')])\<rparr>"
        and rest = "[]" and d = "[(''access_token'', JStr ''new''), (''refresh_token'', JStr ''r1'')]"
        and a = "JStr ''new''" and answer = "''y''" and typed = "[]" and content' = demo_env
        and x = "''new''" and y = "''r1''" and ls = "readlines demo_env"]
  from inst hyp1 have p1: "update_env_file demo_runtime (JStr ''new'') (JStr ''r1'') (demo_desk []) =
        (Inr (), (demo_desk [])\<lparr>env_file := Some (concat (write_tokens ''new'' ''r1''
                                                (readlines demo_env)))\<rparr>)"
    by simp
  from inst hyp2 rot have p2: "env_file (snd (refresh_token_script demo_runtime demo_getenv
       (demo_desk [ok (JObj [(''access_token'', JStr ''new''), (''refresh_token'', JStr ''r1'')])])))
     = Some (concat (write_tokens ''new'' ''r1'' (readlines demo_env)))"
    by simp
  from inst hyp3 have p3: "write_tokens ''new'' ''r1'' (readlines demo_env) ! 2 =
          (if prefix ''SCHWAB_ACCESS_TOKEN='' (readlines demo_env ! 2)
           then ''SCHWAB_ACCESS_TOKEN='' @ ''new'' @ [CHR 0x0A]
           else if prefix ''SCHWAB_REFRESH_TOKEN='' (readlines demo_env ! 2)
             then ''SCHWAB_REFRESH_TOKEN='' @ ''r1'' @ [CHR 0x0A]
           else readlines demo_env ! 2)"
    by blast
  show ?thesis
    using p1 p2 p3 plain
    by (simp add: written third demo_desk_def)
qed

subsection \<open>How the refresh carries the client credentials\<close>

text \<open>
  C2. The one request \<^verbatim>\<open>SchwabAPIClient.refresh_access_token\<close> sends, for the client with id
  "id" and secret "secret": it has no \<^verbatim>\<open>Authorization\<close> header, and \<^verbatim>\<open>client_id\<close> and
  \<^verbatim>\<open>client_secret\<close> are form fields of its body.
\<close>

theorem refresh_access_token_credentials_in_body:
  "sent (snd (snd (refresh_access_token demo_client
       (stub [ok (JObj [(''access_token'', JStr ''new'')])])))) =
     [\<lparr>meth = POST, url = ''https://api.schwabapi.com/v1/oauth/token'',
       headers = [(''Content-Type'', ''application/x-www-form-urlencoded'')],
       params = [],
       form = [(''grant_type'', JStr ''refresh_token''), (''refresh_token'', JStr ''r0''),
               (''client_id'', JStr ''id''), (''client_secret'', JStr ''secret'')]\<rparr>]
 \<and> map (\<lambda>rq. map_of (headers rq) ''Authorization'')
       (sent (snd (snd (refresh_access_token demo_client
          (stub [ok (JObj [(''access_token'', JStr ''new'')])]))))) = [None]
 \<and> map (\<lambda>rq. map_of (form rq) ''client_secret'')
       (sent (snd (snd (refresh_access_token demo_client
          (stub [ok (JObj [(''access_token'', JStr ''new'')])]))))) = [Some (JStr ''secret'')]"
  by code_simp

text \<open>
  refresh_token.py does what the claim says, whatever the server answers: its request has
  the header \<^verbatim>\<open>Authorization: Basic base64(id:secret)\<close> and a body of \<^verbatim>\<open>grant_type\<close> and
  \<^verbatim>\<open>refresh_token\<close> only.
\<close>

lemma refresh_script_try_sent:
  "sent (snd (refresh_script_try rt cid secret rtok w)) =
     sent w @ [\<lparr>meth = POST, url = ''https://api.schwabapi.com/v1/oauth/token'',
                 headers = [(''Authorization'', basic_auth (cid @ '':'' @ secret)),
                            (''Content-Type'', ''application/x-www-form-urlencoded'')],
                 params = [],
                 form = [(''grant_type'', JStr ''refresh_token''),
                         (''refresh_token'', JStr rtok)]\<rparr>]"
  unfolding refresh_script_try_def Let_def send_def input_def
  by (auto split: prod.splits sum.splits list.splits reply.splits option.splits if_splits)

lemma refresh_script_basic_auth:
  assumes "getenv ''SCHWAB_CLIENT_ID'' = Some cid" and "cid \<noteq> []"
    and "getenv ''SCHWAB_CLIENT_SECRET'' = Some secret" and "secret \<noteq> []"
    and "getenv ''SCHWAB_REFRESH_TOKEN'' = Some rtok" and "rtok \<noteq> []"
  shows "sent (snd (refresh_token_script rt getenv w)) =
     sent w @ [\<lparr>meth = POST, url = ''https://api.schwabapi.com/v1/oauth/token'',
                 headers = [(''Authorization'', basic_auth (cid @ '':'' @ secret)),
                            (''Content-Type'', ''application/x-www-form-urlencoded'')],
                 params = [],
                 form = [(''grant_type'', JStr ''refresh_token''),
                         (''refresh_token'', JStr rtok)]\<rparr>]"
  using assms by (simp add: refresh_token_script_def refresh_script_try_sent)

lemma basic_auth_example: "basic_auth (''id'' @ '':'' @ ''secret'') = ''Basic aWQ6c2VjcmV0''"
  by code_simp

subsection \<open>A token response without an access token\<close>

text \<open>
  C4. The token endpoint answers 200 with \<^verbatim>\<open>{"error": "unsupported"}\<close>. The client's
  \<^verbatim>\<open>refresh_access_token\<close> returns \<^verbatim>\<open>True\<close> and has stored \<^verbatim>\<open>None\<close> as access token;
  \<^verbatim>\<open>exchange_code_for_tokens\<close> leaves its \<^verbatim>\<open>try\<close> block with an uncaught \<^verbatim>\<open>KeyError\<close>.
\<close>

theorem refresh_access_token_True_without_access_token:
  "fst (refresh_access_token demo_client (stub [ok (JObj [(''error'', JStr ''unsupported'')])]))
     = Inr True
 \<and> access_token (fst (snd (refresh_access_token demo_client
       (stub [ok (JObj [(''error'', JStr ''unsupported'')])])))) = JNull
 \<and> fst (exchange_code_for_tokens demo_runtime (Some ''id'') (Some ''secret'') ''code''
       (stub [ok (JObj [(''error'', JStr ''unsupported'')])])) = Inl (KeyError ''access_token'')"
  by code_simp

subsection \<open>Bulk prices\<close>

text \<open>
  \<^verbatim>\<open>get_multiple_prices\<close> hands the formatter \<^verbatim>\<open>{symbol: quotes[symbol]}\<close>. Unless the symbol is
  the word "quote", that dict has no "quote" key and the formatter returns the empty dict.
\<close>

lemma wrapped_quote_formats_empty:
  "symbol \<noteq> ''quote'' \<Longrightarrow> format_quote_for_trading (JObj [(symbol, q)]) = Inr []"
  by (auto simp: format_quote_for_trading_def keys_def)

text \<open>
  C7. \<^verbatim>\<open>get_multiple_prices("AAPL,BAD")\<close> against a server that returns the quote of AAPL
  (last 150, bid 149, ask 151) and nothing for BAD: the batch does not fail and BAD gets its
  error entry, but the three price fields of AAPL are 0. \<^verbatim>\<open>get_real_time_price("AAPL")\<close>
  against the same server reports 150.
\<close>

theorem get_multiple_prices_zero_prices:
  "fst (get_multiple_prices demo_runtime (Some demo_client) ''AAPL,BAD''
          (stub [ok (JObj [(''AAPL'', aapl_quote)])])) =
     [(''AAPL_price'', JInt 0), (''AAPL_bid'', JInt 0), (''AAPL_ask'', JInt 0),
      (''BAD'', JObj [(''error'', JStr ''No data available'')])]
 \<and> map_of (fst (get_real_time_price demo_runtime (Some demo_client) ''AAPL''
          (stub [ok (JObj [(''AAPL'', aapl_quote)])]))) ''current_price'' = Some (JInt 150)"
  by code_simp

end
